theory Spec2Isabelle
  imports Main
begin

section \<open>Strings of the host language\<close>

text \<open>
  A JavaScript string is modelled as a \<^typ>\<open>string\<close>, one \<^typ>\<open>char\<close> per code unit.
  Case mapping acts on the ASCII letters; every other code unit is a caseless symbol.
\<close>

definition upperAlphabet :: string where
  "upperAlphabet = ''ABCDEFGHIJKLMNOPQRSTUVWXYZ''"

definition lowerAlphabet :: string where
  "lowerAlphabet = ''abcdefghijklmnopqrstuvwxyz''"

definition toLowerChar :: "char \<Rightarrow> char" where
  "toLowerChar c = (case map_of (zip upperAlphabet lowerAlphabet) c of Some d \<Rightarrow> d | None \<Rightarrow> c)"

definition toUpperChar :: "char \<Rightarrow> char" where
  "toUpperChar c = (case map_of (zip lowerAlphabet upperAlphabet) c of Some d \<Rightarrow> d | None \<Rightarrow> c)"

definition toLowerCase :: "string \<Rightarrow> string" where
  "toLowerCase s = map toLowerChar s"

definition toUpperCase :: "string \<Rightarrow> string" where
  "toUpperCase s = map toUpperChar s"

text \<open>The three quote characters and the line feed, which a string literal cannot hold.\<close>

definition dq :: char where "dq = CHR 0x22"
definition sq :: char where "sq = CHR 0x27"
definition bq :: char where "bq = CHR 0x60"
definition lf :: char where "lf = CHR 0x0A"

text \<open>\<^verbatim>\<open>s.startsWith(p)\<close>, \<^verbatim>\<open>s.includes(p)\<close> and \<^verbatim>\<open>s.endsWith(p)\<close>.\<close>

fun startsWith :: "string \<Rightarrow> string \<Rightarrow> bool" where
  "startsWith s [] = True"
| "startsWith [] (p # ps) = False"
| "startsWith (c # cs) (p # ps) = (c = p \<and> startsWith cs ps)"

fun includesStr :: "string \<Rightarrow> string \<Rightarrow> bool" where
  "includesStr [] p = (p = [])"
| "includesStr (c # cs) p = (startsWith (c # cs) p \<or> includesStr cs p)"

definition endsWith :: "string \<Rightarrow> string \<Rightarrow> bool" where
  "endsWith s p = startsWith (rev s) (rev p)"

text \<open>
  \<^verbatim>\<open>s.split(c)\<close> for a separator of one character: the pieces between the separators,
  never an empty array.
\<close>

fun split :: "string \<Rightarrow> char \<Rightarrow> string list" where
  "split [] c = [[]]"
| "split (x # xs) c =
     (if x = c then [] # split xs c
      else (case split xs c of [] \<Rightarrow> [[x]] | w # ws \<Rightarrow> (x # w) # ws))"

text \<open>\<^verbatim>\<open>xs.slice(0, e)\<close> and \<^verbatim>\<open>xs.slice(b)\<close>: a negative bound counts from the end.\<close>

definition slice_to :: "'a list \<Rightarrow> int \<Rightarrow> 'a list" where
  "slice_to xs e = (if e < 0 then take (nat (int (length xs) + e)) xs else take (nat e) xs)"

definition slice_from :: "'a list \<Rightarrow> int \<Rightarrow> 'a list" where
  "slice_from xs b = (if b < 0 then drop (nat (int (length xs) + b)) xs else drop (nat b) xs)"

section \<open>Regular expressions\<close>

text \<open>
  The compiled form of a pattern, for the constructs the repository's patterns use:
  literals, \<^verbatim>\<open>.\<close>, character classes (with ranges and \<^verbatim>\<open>\s\<close>, possibly negated),
  concatenation, alternation, the greedy quantifiers \<^verbatim>\<open>{n,}\<close> (\<^verbatim>\<open>*\<close> is \<^verbatim>\<open>{0,}\<close>,
  \<^verbatim>\<open>+\<close> is \<^verbatim>\<open>{1,}\<close>) and \<^verbatim>\<open>?\<close>, and the negative lookahead \<^verbatim>\<open>(?!r)\<close>.
\<close>

datatype citem = CChar char | CRange char char | CSpace

datatype regex =
    Eps
  | Lit char
  | AnyChar
  | Class bool "citem list"
  | Seq regex regex
  | Alt regex regex
  | AtLeast nat regex
  | Opt regex
  | NegLook regex

definition whiteSpace :: "char list" where
  "whiteSpace = [CHR 0x09, CHR 0x0A, CHR 0x0B, CHR 0x0C, CHR 0x0D, CHR 0x20, CHR 0xA0]"

fun inItem :: "citem \<Rightarrow> char \<Rightarrow> bool" where
  "inItem (CChar c) d = (d = c)"
| "inItem (CRange lo hi) d =
     ((of_char lo :: nat) \<le> of_char d \<and> (of_char d :: nat) \<le> of_char hi)"
| "inItem CSpace d = (d \<in> set whiteSpace)"

text \<open>
  With the flag \<^verbatim>\<open>i\<close> a character is in a class when some member of the class has the
  same canonical (upper-case) form.
\<close>

definition inClass :: "bool \<Rightarrow> citem list \<Rightarrow> char \<Rightarrow> bool" where
  "inClass icase items d =
     list_ex (\<lambda>it. inItem it d \<or>
        (icase \<and> (inItem it (toUpperChar d) \<or> inItem it (toLowerChar d)))) items"

definition sameChar :: "bool \<Rightarrow> char \<Rightarrow> char \<Rightarrow> bool" where
  "sameChar icase c d = (if icase then toUpperChar c = toUpperChar d else c = d)"

fun rsize :: "regex \<Rightarrow> nat" where
  "rsize (Seq a b) = Suc (rsize a + rsize b)"
| "rsize (Alt a b) = Suc (rsize a + rsize b)"
| "rsize (AtLeast n r) = Suc (n + rsize r)"
| "rsize (Opt r) = Suc (rsize r)"
| "rsize (NegLook r) = Suc (rsize r)"
| "rsize _ = 0"

text \<open>
  The backtracking matcher: \<open>mt icase r s\<close> lists, in the order a backtracking engine
  tries them, the rests of \<open>s\<close> left after a match of \<open>r\<close> at the start of \<open>s\<close>.
  A quantifier takes one more iteration before it tries to stop (greedy), and an optional
  iteration that consumes nothing is rejected.
\<close>

function mt :: "bool \<Rightarrow> regex \<Rightarrow> string \<Rightarrow> string list" where
  "mt i Eps s = [s]"
| "mt i (Lit c) s = (case s of [] \<Rightarrow> [] | d # ds \<Rightarrow> if sameChar i c d then [ds] else [])"
| "mt i AnyChar s =
     (case s of [] \<Rightarrow> [] | d # ds \<Rightarrow> if d = CHR 0x0A \<or> d = CHR 0x0D then [] else [ds])"
| "mt i (Class neg items) s =
     (case s of [] \<Rightarrow> [] | d # ds \<Rightarrow> if inClass i items d \<noteq> neg then [ds] else [])"
| "mt i (Seq a b) s = concat (map (\<lambda>t. mt i b t) (mt i a s))"
| "mt i (Alt a b) s = mt i a s @ mt i b s"
| "mt i (AtLeast (Suc n) r) s = concat (map (\<lambda>t. mt i (AtLeast n r) t) (mt i r s))"
| "mt i (AtLeast 0 r) s =
     concat (map (\<lambda>t. if length t < length s then mt i (AtLeast 0 r) t else []) (mt i r s))
       @ [s]"
| "mt i (Opt r) s = filter (\<lambda>t. length t < length s) (mt i r s) @ [s]"
| "mt i (NegLook r) s = (if mt i r s = [] then [s] else [])"
  by pat_completeness auto
termination
  by (relation "measures [\<lambda>(i, r, s). rsize r, \<lambda>(i, r, s). length s]") auto

text \<open>
  The search of \<^verbatim>\<open>RegExpBuiltinExec\<close>: \<open>s\<close> is the rest of the subject from index
  \<open>pos\<close> on; the result is the start and the end index of the first match at or after
  \<open>pos\<close>.
\<close>

fun search :: "bool \<Rightarrow> regex \<Rightarrow> string \<Rightarrow> nat \<Rightarrow> (nat \<times> nat) option" where
  "search i r [] pos = (case mt i r [] of [] \<Rightarrow> None | t # ts \<Rightarrow> Some (pos, pos))"
| "search i r (c # cs) pos =
     (case mt i r (c # cs) of
        [] \<Rightarrow> search i r cs (Suc pos)
      | t # ts \<Rightarrow> Some (pos, pos + (length (c # cs) - length t)))"

text \<open>
  A \<^verbatim>\<open>RegExp\<close> object: the compiled pattern, its flags, and the mutable \<^verbatim>\<open>lastIndex\<close>.
\<close>

record RegExp =
  source :: regex
  ignoreCase :: bool
  global :: bool
  lastIndex :: nat

definition newRegExp :: "regex \<Rightarrow> bool \<Rightarrow> bool \<Rightarrow> RegExp" where
  "newRegExp r g i = \<lparr>source = r, ignoreCase = i, global = g, lastIndex = 0\<rparr>"

text \<open>
  \<^verbatim>\<open>regex.test(s)\<close>: with the flag \<^verbatim>\<open>g\<close> the search starts at \<^verbatim>\<open>lastIndex\<close>; a match
  stores its end index in \<^verbatim>\<open>lastIndex\<close>, a failure stores 0. Without \<^verbatim>\<open>g\<close> the search
  starts at 0 and \<^verbatim>\<open>lastIndex\<close> is left alone. The object is returned updated.
\<close>

definition test :: "RegExp \<Rightarrow> string \<Rightarrow> bool \<times> RegExp" where
  "test re s =
     (if global re then
        (if lastIndex re > length s then (False, re\<lparr>lastIndex := 0\<rparr>)
         else (case search (ignoreCase re) (source re) (drop (lastIndex re) s) (lastIndex re) of
                 None \<Rightarrow> (False, re\<lparr>lastIndex := 0\<rparr>)
               | Some (b, e) \<Rightarrow> (True, re\<lparr>lastIndex := e\<rparr>)))
      else (search (ignoreCase re) (source re) s 0 \<noteq> None, re))"

text \<open>
  \<^verbatim>\<open>s.match(re)[1]\<close> for a pattern without \<^verbatim>\<open>g\<close> of the shape \<open>a(g)b\<close>: the text of
  the one capture group in the first match, or \<open>None\<close> when \<^verbatim>\<open>match\<close> returns null.
\<close>

definition captureAt :: "bool \<Rightarrow> regex \<Rightarrow> regex \<Rightarrow> regex \<Rightarrow> string \<Rightarrow> string option" where
  "captureAt i a g b s =
     (case concat (map (\<lambda>t1. concat (map (\<lambda>t2. map (\<lambda>t3. (t1, t2)) (mt i b t2)) (mt i g t1)))
             (mt i a s)) of
        [] \<Rightarrow> None
      | (t1, t2) # rest \<Rightarrow> Some (take (length t1 - length t2) t1))"

fun matchGroup :: "bool \<Rightarrow> regex \<Rightarrow> regex \<Rightarrow> regex \<Rightarrow> string \<Rightarrow> string option" where
  "matchGroup i a g b [] = captureAt i a g b []"
| "matchGroup i a g b (c # cs) =
     (case captureAt i a g b (c # cs) of
        None \<Rightarrow> matchGroup i a g b cs
      | Some w \<Rightarrow> Some w)"

text \<open>Building blocks for writing compiled patterns.\<close>

fun lits :: "string \<Rightarrow> regex" where
  "lits [] = Eps"
| "lits [c] = Lit c"
| "lits (c # cs) = Seq (Lit c) (lits cs)"

fun seqs :: "regex list \<Rightarrow> regex" where
  "seqs [] = Eps"
| "seqs [r] = r"
| "seqs (r # rs) = Seq r (seqs rs)"

fun alts :: "regex list \<Rightarrow> regex" where
  "alts [] = Eps"
| "alts [r] = r"
| "alts (r # rs) = Alt r (alts rs)"

abbreviation Star :: "regex \<Rightarrow> regex" where
  "Star r \<equiv> AtLeast 0 r"

abbreviation Plus :: "regex \<Rightarrow> regex" where
  "Plus r \<equiv> AtLeast 1 r"

section \<open>The data model (types.ts)\<close>

text \<open>
  Each interface is a record; a field \<^verbatim>\<open>f?\<close> that may be absent is an \<open>option\<close>. A field
  name carries a short prefix of its record (\<open>pat_name\<close> is \<^verbatim>\<open>SecurityPattern.name\<close>),
  because several interfaces share the names \<^verbatim>\<open>name\<close>, \<^verbatim>\<open>path\<close>, \<^verbatim>\<open>type\<close>, \<^verbatim>\<open>message\<close>
  and \<^verbatim>\<open>severity\<close>. Union types of string literals are strings at run time and are
  modelled as strings where the code compares or builds them as such.
\<close>

datatype Severity = Error | Warning | Info

text \<open>
  An object literal used as a dictionary inherits the members of \<^verbatim>\<open>Object.prototype\<close>:
  a read \<^verbatim>\<open>obj[key]\<close> of a key that the object does not have itself finds the member of
  that name, a function (for \<^verbatim>\<open>__proto__\<close> the prototype object). The names are those of
  the runtime of the package (Node.js).
\<close>

definition objectPrototypeMembers :: "string list" where
  "objectPrototypeMembers =
     [''constructor'', ''__defineGetter__'', ''__defineSetter__'', ''hasOwnProperty'',
      ''__lookupGetter__'', ''__lookupSetter__'', ''isPrototypeOf'', ''propertyIsEnumerable'',
      ''toString'', ''valueOf'', ''__proto__'', ''toLocaleString'']"

text \<open>
  The field \<^verbatim>\<open>suggestion\<close> of an issue is declared a string. The scanner fills it from such
  a dictionary, so at run time it holds a text or, for a rule named like a member of
  \<^verbatim>\<open>Object.prototype\<close>, that member.
\<close>

datatype Suggestion = Advice string | PrototypeMember string

record SecurityPattern =
  pat_name :: string
  pat_pattern :: string
  pat_severity :: Severity
  pat_message :: string

record SecurityIssue =
  iss_file :: string
  iss_line :: "nat option"
  iss_rule :: string
  iss_severity :: Severity
  iss_message :: string
  iss_suggestion :: Suggestion

record ApiParameter =
  par_name :: string
  par_type :: string
  par_required :: bool
  par_description :: "string option"

text \<open>
  \<^verbatim>\<open>ApiEndpoint\<close>, without its fields \<^verbatim>\<open>response\<close> and \<^verbatim>\<open>security\<close>, which no function of
  the repository reads or writes.
\<close>

record ApiEndpoint =
  ep_path :: string
  ep_method :: string
  ep_description :: "string option"
  ep_parameters :: "ApiParameter list option"
  ep_authentication :: "bool option"

record ApiConfiguration =
  baseUrl :: "string option"
  api_version :: "string option"
  endpoints :: "ApiEndpoint list option"

record SecurityRules =
  enforceHttps :: "bool option"
  inputSanitization :: "bool option"
  sqlInjectionPrevention :: "bool option"
  xssProtection :: "bool option"
  csrfProtection :: "bool option"
  corsConfiguration :: "bool option"
  rateLimiting :: "bool option"
  dataValidation :: "bool option"

record SecurityConfiguration =
  rules :: "SecurityRules option"
  patterns :: "SecurityPattern list option"

text \<open>\<^verbatim>\<open>config\<close> and \<^verbatim>\<open>routes\<close> are kept as lists of key and value.\<close>

record AuthenticationConfiguration =
  auth_type :: "string option"
  auth_config :: "(string \<times> string) list option"
  auth_routes :: "(string \<times> string) list option"

record DatabaseField =
  fld_name :: string
  fld_type :: string
  fld_required :: "bool option"
  fld_unique :: "bool option"
  fld_default :: "string option"

record DatabaseRelationship =
  rel_type :: string
  rel_model :: string
  rel_foreignKey :: "string option"

record DatabaseModel =
  mdl_name :: string
  mdl_fields :: "DatabaseField list"
  mdl_relationships :: "DatabaseRelationship list option"

record DatabaseConfiguration =
  db_type :: "string option"
  models :: "DatabaseModel list option"

record ComponentProp =
  prop_name :: string
  prop_type :: string
  prop_required :: bool

record FrontendComponent =
  cmp_name :: string
  cmp_path :: string
  cmp_props :: "ComponentProp list option"
  cmp_apiCalls :: "string list option"

record FrontendPage =
  page_name :: string
  page_path :: string
  page_route :: string
  page_components :: "string list option"
  page_authentication :: "bool option"

record FrontendConfiguration =
  components :: "FrontendComponent list option"
  pages :: "FrontendPage list option"

record EnvironmentConfig =
  env_port :: "nat option"
  env_database :: "string option"
  env_apiUrl :: "string option"

record Environment =
  development :: "EnvironmentConfig option"
  production :: "EnvironmentConfig option"

record DeploymentConfiguration =
  environment :: "Environment option"
  platform :: "string option"

record AiInteraction =
  ai_timestamp :: string
  ai_action :: string
  ai_context :: string
  ai_result :: string
  ai_metadata :: "string option"

record Preferences =
  codeStyle :: "string option"
  commentLevel :: "string option"
  errorHandling :: "string option"
  testGeneration :: "bool option"

record ContextMemory =
  lastUpdated :: "string option"
  aiInteractions :: "AiInteraction list option"
  codeGeneration :: "Preferences option option"

record ProjectInfo =
  prj_name :: string
  prj_description :: "string option"
  prj_version :: "string option"
  prj_type :: string
  prj_framework :: "(string \<times> string) list option"

record Architecture =
  arch_structure :: "(string \<times> string) list option"
  arch_patterns :: "string list option"

text \<open>
  The interface declares \<^verbatim>\<open>security\<close> as required. A context is read from a file with an
  unchecked cast (\<^verbatim>\<open>contextData as ProjectContext\<close>), so every consumer but one reads it as
  \<^verbatim>\<open>context.security?.\<close>; the model keeps the field optional so that both the typed and the
  untyped value can be written.
\<close>

record ProjectContext =
  project :: ProjectInfo
  architecture :: "Architecture option"
  api :: "ApiConfiguration option"
  security :: "SecurityConfiguration option"
  authentication :: "AuthenticationConfiguration option"
  database :: "DatabaseConfiguration option"
  frontend :: "FrontendConfiguration option"
  deployment :: "DeploymentConfiguration option"
  contextMemory :: "ContextMemory option"

record ValidationError =
  ve_path :: string
  ve_message :: string
  ve_severity :: Severity
  ve_suggestion :: "string option"

record ValidationResult =
  valid :: bool
  errors :: "ValidationError list"
  warnings :: "ValidationError list"

datatype IssueType = ApiMismatch | ComponentMissing | RouteUndefined | AuthMismatch

record ContinuityIssue =
  ci_type :: IssueType
  ci_frontend :: string
  ci_backend :: string
  ci_message :: string
  ci_suggestion :: string

text \<open>What a function throws.\<close>

datatype JsError = SyntaxError | TypeError | IOError

text \<open>JavaScript truthiness of an optional boolean and of an optional string.\<close>

definition truthyBool :: "bool option \<Rightarrow> bool" where
  "truthyBool b = (b = Some True)"

definition truthyString :: "string option \<Rightarrow> bool" where
  "truthyString s = (case s of None \<Rightarrow> False | Some t \<Rightarrow> t \<noteq> [])"

section \<open>SecurityValidator\<close>

text \<open>
  What the scanner takes from its host: the \<^verbatim>\<open>RegExp\<close> constructor (\<open>None\<close> when it
  throws on a malformed pattern), \<^verbatim>\<open>fs.readFileSync\<close> (\<open>None\<close> when it throws), and
  \<^verbatim>\<open>JSON.parse\<close> followed by the keys of the merged \<^verbatim>\<open>dependencies\<close> and
  \<^verbatim>\<open>devDependencies\<close> (\<open>None\<close> when that throws).
\<close>

record Host =
  compileRegExp :: "string \<Rightarrow> regex option"
  readFileSync :: "string \<Rightarrow> string option"
  dependencyNames :: "string \<Rightarrow> string list option"

text \<open>
  \<^verbatim>\<open>getSuggestionForPattern\<close>: \<^verbatim>\<open>suggestions[patternName] || fallback\<close>. The five texts are
  not empty; a name that is none of the five keys and is a member of \<^verbatim>\<open>Object.prototype\<close>
  yields that member, which is truthy; any other name yields the fallback.
\<close>

definition getSuggestionForPattern :: "string \<Rightarrow> string \<Rightarrow> Suggestion" where
  "getSuggestionForPattern patternName line =
     (case map_of
        [(''hardcoded-api-key'', ''Move to environment variable: process.env.API_KEY''),
         (''hardcoded-password'', ''Use environment variables and bcrypt for password hashing''),
         (''sql-injection-risk'', ''Use parameterized queries or an ORM like Prisma/Sequelize''),
         (''xss-vulnerability'', ''Use DOMPurify to sanitize HTML or avoid innerHTML''),
         (''insecure-http'', ''Replace with https:// for production URLs'')] patternName of
        Some t \<Rightarrow> Advice t
      | None \<Rightarrow>
          if patternName \<in> set objectPrototypeMembers then PrototypeMember patternName
          else Advice ''Review this security issue and apply appropriate fixes'')"

text \<open>
  The body of \<^verbatim>\<open>lines.forEach((line, index) => { if (regex.test(line)) issues.push(...) })\<close>:
  one \<^verbatim>\<open>RegExp\<close> object is shared by all the lines, and \<^verbatim>\<open>test\<close> updates it.
\<close>

fun forEachLine ::
  "string \<Rightarrow> SecurityPattern \<Rightarrow> string list \<Rightarrow> nat \<Rightarrow> RegExp \<Rightarrow> SecurityIssue list
     \<Rightarrow> SecurityIssue list" where
  "forEachLine filePath p [] index re issues = issues"
| "forEachLine filePath p (line # rest) index re issues =
     (case test re line of
        (matched, re') \<Rightarrow>
          forEachLine filePath p rest (Suc index) re'
            (if matched
             then issues @
               [\<lparr>iss_file = filePath, iss_line = Some (index + 1), iss_rule = pat_name p,
                 iss_severity = pat_severity p, iss_message = pat_message p,
                 iss_suggestion = getSuggestionForPattern (pat_name p) line\<rparr>]
             else issues))"

definition applySecurityPattern ::
  "Host \<Rightarrow> string \<Rightarrow> string \<Rightarrow> string list \<Rightarrow> SecurityPattern
     \<Rightarrow> JsError + SecurityIssue list" where
  "applySecurityPattern host filePath content lines p =
     (case compileRegExp host (pat_pattern p) of
        None \<Rightarrow> Inl SyntaxError
      | Some r \<Rightarrow> Inr (forEachLine filePath p lines 0 (newRegExp r True True) []))"

definition envLineIssues :: "string \<Rightarrow> nat \<times> string \<Rightarrow> SecurityIssue list" where
  "envLineIssues filePath = (\<lambda>(index, line).
     if includesStr line ''='' \<and> \<not> startsWith line ''#'' then
       (case split line CHR ''='' of
          key # val # others \<Rightarrow>
            if val \<noteq> [] \<and> length val > 10 \<and> \<not> includesStr val ''${''
                 \<and> \<not> includesStr val ''your_''
               \<and> (includesStr (toLowerCase key) ''key'' \<or> includesStr (toLowerCase key) ''secret''
                    \<or> includesStr (toLowerCase key) ''token'')
            then [\<lparr>iss_file = filePath, iss_line = Some (index + 1),
                    iss_rule = ''env-file-security'', iss_severity = Warning,
                    iss_message = ''Environment file contains what appears to be real credentials. Ensure this file is not committed to version control.'',
                    iss_suggestion = Advice ''Add .env files to .gitignore and use placeholder values in committed examples''\<rparr>]
            else []
        | _ \<Rightarrow> [])
     else [])"

definition checkEnvironmentFile :: "string \<Rightarrow> string list \<Rightarrow> SecurityIssue list" where
  "checkEnvironmentFile filePath lines = concat (map (envLineIssues filePath) (enumerate 0 lines))"

definition vulnerablePackages :: "string list" where
  "vulnerablePackages = [''lodash'', ''moment'', ''request'', ''underscore'']"

definition checkPackageJson :: "Host \<Rightarrow> string \<Rightarrow> string \<Rightarrow> SecurityIssue list" where
  "checkPackageJson host filePath content =
     (case dependencyNames host content of
        None \<Rightarrow> []
      | Some pkgs \<Rightarrow>
          map (\<lambda>pkg.
                 \<lparr>iss_file = filePath, iss_line = None, iss_rule = ''vulnerable-dependency'',
                  iss_severity = Warning,
                  iss_message = ''Package '' @ pkg @ '' may have known vulnerabilities. Consider updating or replacing.'',
                  iss_suggestion = Advice (''Run '' @ [sq] @ ''npm audit'' @ [sq] @ '' to check for vulnerabilities and update '' @ pkg @ '' to the latest version'')\<rparr>)
            (filter (\<lambda>pkg. pkg \<in> set vulnerablePackages) pkgs))"

definition antiPatternLineIssues :: "string \<Rightarrow> nat \<times> string \<Rightarrow> SecurityIssue list" where
  "antiPatternLineIssues filePath = (\<lambda>(index, line).
     (if includesStr line ''eval(''
      then [\<lparr>iss_file = filePath, iss_line = Some (index + 1), iss_rule = ''eval-usage'',
              iss_severity = Error,
              iss_message = ''Use of eval() detected. This is a serious security risk.'',
              iss_suggestion = Advice ''Avoid eval(). Use JSON.parse() for JSON data or proper function calls''\<rparr>]
      else []) @
     (if includesStr line ''document.write(''
      then [\<lparr>iss_file = filePath, iss_line = Some (index + 1), iss_rule = ''document-write'',
              iss_severity = Warning,
              iss_message = ''document.write() usage detected. This can lead to XSS vulnerabilities.'',
              iss_suggestion = Advice ''Use DOM manipulation methods like createElement() and appendChild()''\<rparr>]
      else []) @
     (if includesStr line ''console.log'' \<and>
         (includesStr line ''password'' \<or> includesStr line ''token'' \<or> includesStr line ''secret'')
      then [\<lparr>iss_file = filePath, iss_line = Some (index + 1),
              iss_rule = ''console-log-sensitive'', iss_severity = Warning,
              iss_message = ''Console.log with potentially sensitive data detected.'',
              iss_suggestion = Advice ''Remove console.log statements with sensitive data before production''\<rparr>]
      else []))"

definition checkCommonAntiPatterns :: "string \<Rightarrow> string list \<Rightarrow> SecurityIssue list" where
  "checkCommonAntiPatterns filePath lines =
     concat (map (antiPatternLineIssues filePath) (enumerate 0 lines))"

definition authBypassLineIssues :: "string \<Rightarrow> nat \<times> string \<Rightarrow> SecurityIssue list" where
  "authBypassLineIssues filePath = (\<lambda>(index, line).
     (if includesStr line ''if ('' \<and> includesStr line ''||'' \<and>
         (includesStr line ''admin'' \<or> includesStr line ''bypass'')
      then [\<lparr>iss_file = filePath, iss_line = Some (index + 1),
              iss_rule = ''auth-bypass-pattern'', iss_severity = Error,
              iss_message = ''Potential authentication bypass pattern detected.'',
              iss_suggestion = Advice ''Review authentication logic to ensure no unintended bypass conditions''\<rparr>]
      else []) @
     (if (includesStr line ''admin'' \<or> includesStr line ''root'') \<and> includesStr line ''password''
      then [\<lparr>iss_file = filePath, iss_line = Some (index + 1), iss_rule = ''hardcoded-admin'',
              iss_severity = Error,
              iss_message = ''Hardcoded admin credentials detected.'',
              iss_suggestion = Advice ''Use environment variables and secure credential management''\<rparr>]
      else []))"

definition checkAuthenticationBypass :: "string \<Rightarrow> string list \<Rightarrow> SecurityIssue list" where
  "checkAuthenticationBypass filePath lines =
     concat (map (authBypassLineIssues filePath) (enumerate 0 lines))"

definition dataExposureLineIssues :: "string \<Rightarrow> nat \<times> string \<Rightarrow> SecurityIssue list" where
  "dataExposureLineIssues filePath = (\<lambda>(index, line).
     (if includesStr line ''res.json'' \<and> includesStr line ''user'' \<and>
         (includesStr line ''password'' \<or> includesStr line ''secret'')
      then [\<lparr>iss_file = filePath, iss_line = Some (index + 1), iss_rule = ''data-exposure'',
              iss_severity = Error,
              iss_message = ''Potential sensitive data exposure in API response.'',
              iss_suggestion = Advice ''Filter sensitive fields before sending API responses''\<rparr>]
      else []) @
     (if includesStr line ''SELECT *'' \<and> includesStr line ''user''
      then [\<lparr>iss_file = filePath, iss_line = Some (index + 1),
              iss_rule = ''sql-data-exposure'', iss_severity = Warning,
              iss_message = ''SELECT * query on user table may expose sensitive data.'',
              iss_suggestion = Advice ''Specify only the columns needed instead of using SELECT *''\<rparr>]
      else []))"

definition checkDataExposure :: "string \<Rightarrow> string list \<Rightarrow> SecurityIssue list" where
  "checkDataExposure filePath lines =
     concat (map (dataExposureLineIssues filePath) (enumerate 0 lines))"

definition applyBuiltInSecurityChecks ::
  "Host \<Rightarrow> string \<Rightarrow> string \<Rightarrow> string list \<Rightarrow> SecurityIssue list" where
  "applyBuiltInSecurityChecks host filePath content lines =
     (if includesStr filePath ''.env'' then checkEnvironmentFile filePath lines else []) @
     (if endsWith filePath ''package.json'' then checkPackageJson host filePath content else []) @
     checkCommonAntiPatterns filePath lines @
     checkAuthenticationBypass filePath lines @
     checkDataExposure filePath lines"

text \<open>
  The loop over the declared patterns inside the \<^verbatim>\<open>try\<close> block of \<^verbatim>\<open>scanFile\<close>. \<open>Inl\<close>
  carries the issues pushed before a pattern failed to compile: the \<^verbatim>\<open>catch\<close> keeps them.
\<close>

fun applyPatterns ::
  "Host \<Rightarrow> string \<Rightarrow> string \<Rightarrow> string list \<Rightarrow> SecurityPattern list \<Rightarrow> SecurityIssue list
     \<Rightarrow> SecurityIssue list + SecurityIssue list" where
  "applyPatterns host filePath content lines [] issues = Inr issues"
| "applyPatterns host filePath content lines (p # ps) issues =
     (case applySecurityPattern host filePath content lines p of
        Inl e \<Rightarrow> Inl issues
      | Inr patternIssues \<Rightarrow>
          applyPatterns host filePath content lines ps (issues @ patternIssues))"

definition scanFile :: "Host \<Rightarrow> ProjectContext \<Rightarrow> string \<Rightarrow> SecurityIssue list" where
  "scanFile host ctx filePath =
     (case readFileSync host filePath of
        None \<Rightarrow> []
      | Some content \<Rightarrow>
          (let lines = split content lf in
           case applyPatterns host filePath content lines
                  (case security ctx of
                     None \<Rightarrow> []
                   | Some sec \<Rightarrow> (case patterns sec of None \<Rightarrow> [] | Some ps \<Rightarrow> ps)) [] of
             Inl issues \<Rightarrow> issues
           | Inr issues \<Rightarrow> issues @ applyBuiltInSecurityChecks host filePath content lines))"

subsection \<open>The default patterns and their compiled forms\<close>

definition bs :: char where "bs = CHR 0x5C"

definition oneOf :: "string \<Rightarrow> regex" where
  "oneOf cs = Class False (map CChar cs)"

definition noneOf :: "string \<Rightarrow> regex" where
  "noneOf cs = Class True (map CChar cs)"

definition ws :: regex where
  "ws = Class False [CSpace]"

definition alnum :: regex where
  "alnum = Class False [CRange CHR ''a'' CHR ''z'', CRange CHR ''A'' CHR ''Z'',
                        CRange CHR ''0'' CHR ''9'']"

text \<open>\<^verbatim>\<open>SecurityValidator.getDefaultPatterns\<close>: the pattern sources, as the strings they are.\<close>

definition src_api_key :: string where
  "src_api_key = ''(api[_-]?key|secret[_-]?key|access[_-]?token)'' @ [bs] @ ''s*[=:]'' @ [bs]
     @ ''s*['' @ [dq, sq] @ ''][a-zA-Z0-9]{10,}['' @ [dq, sq] @ '']''"

definition src_password :: string where
  "src_password = ''password'' @ [bs] @ ''s*[=:]'' @ [bs] @ ''s*['' @ [dq, sq] @ ''][^''
     @ [dq, sq] @ '']{3,}['' @ [dq, sq] @ '']''"

definition src_sql :: string where
  "src_sql = ''(SELECT|INSERT|UPDATE|DELETE).*[+].*[$]|[$][{].*[}]''"

definition src_xss :: string where
  "src_xss = ''innerHTML'' @ [bs] @ ''s*='' @ [bs] @ ''s*[^'' @ [dq, sq]
     @ '']*[$]|dangerouslySetInnerHTML''"

definition src_http :: string where
  "src_http = ''http://(?!localhost|127'' @ [bs] @ ''.0'' @ [bs] @ ''.0'' @ [bs] @ ''.1|0''
     @ [bs] @ ''.0'' @ [bs] @ ''.0'' @ [bs] @ ''.0)''"

definition getDefaultPatterns :: "SecurityPattern list" where
  "getDefaultPatterns =
     [\<lparr>pat_name = ''hardcoded-api-key'', pat_pattern = src_api_key, pat_severity = Error,
       pat_message = ''Hardcoded API key detected. Use environment variables instead.''\<rparr>,
      \<lparr>pat_name = ''hardcoded-password'', pat_pattern = src_password, pat_severity = Error,
       pat_message = ''Hardcoded password detected. Use secure configuration management.''\<rparr>,
      \<lparr>pat_name = ''sql-injection-risk'', pat_pattern = src_sql, pat_severity = Error,
       pat_message = ''Potential SQL injection vulnerability. Use parameterized queries.''\<rparr>,
      \<lparr>pat_name = ''xss-vulnerability'', pat_pattern = src_xss, pat_severity = Warning,
       pat_message = ''Potential XSS vulnerability. Sanitize user input before rendering.''\<rparr>,
      \<lparr>pat_name = ''insecure-http'', pat_pattern = src_http, pat_severity = Warning,
       pat_message = ''Insecure HTTP protocol detected. Use HTTPS in production.''\<rparr>]"

text \<open>\<^verbatim>\<open>ProjectContextManager.getDefaultSecurityPatterns\<close>.\<close>

definition src_api_key_m :: string where
  "src_api_key_m = ''(api[_-]?key|secret[_-]?key)'' @ [bs] @ ''s*[=:]'' @ [bs]
     @ ''s*['' @ [dq, sq] @ ''][a-zA-Z0-9]{10,}['' @ [dq, sq] @ '']''"

definition src_password_m :: string where
  "src_password_m = ''password'' @ [bs] @ ''s*[=:]'' @ [bs] @ ''s*['' @ [dq, sq] @ ''][^''
     @ [dq, sq] @ '']+['' @ [dq, sq] @ '']''"

definition src_sql_m :: string where
  "src_sql_m = ''(SELECT|INSERT|UPDATE|DELETE).*'' @ [bs] @ ''+.*'' @ [bs] @ ''$|'' @ [bs]
     @ ''$'' @ [bs] @ ''{.*'' @ [bs] @ ''}''"

definition src_xss_m :: string where
  "src_xss_m = ''innerHTML'' @ [bs] @ ''s*='' @ [bs] @ ''s*[^'' @ [dq, sq] @ '']*'' @ [bs]
     @ ''$|dangerouslySetInnerHTML''"

definition src_http_m :: string where
  "src_http_m = ''http://(?!localhost|127'' @ [bs] @ ''.0'' @ [bs] @ ''.0'' @ [bs] @ ''.1)''"

definition src_credit_card_m :: string where
  "src_credit_card_m = ''(credit[_-]?card|cc[_-]?number|card[_-]?number)'' @ [bs] @ ''s*[=:]''"

definition src_personal_m :: string where
  "src_personal_m =
     ''(ssn|social[_-]?security|phone[_-]?number|email[_-]?address)'' @ [bs] @ ''s*[=:]''"

definition getDefaultSecurityPatterns :: "SecurityPattern list" where
  "getDefaultSecurityPatterns =
     [\<lparr>pat_name = ''hardcoded-api-key'', pat_pattern = src_api_key_m, pat_severity = Error,
       pat_message = ''Hardcoded API key detected. Use environment variables instead.''\<rparr>,
      \<lparr>pat_name = ''hardcoded-password'', pat_pattern = src_password_m, pat_severity = Error,
       pat_message = ''Hardcoded password detected. Use secure configuration management.''\<rparr>,
      \<lparr>pat_name = ''sql-injection-risk'', pat_pattern = src_sql_m, pat_severity = Error,
       pat_message = ''Potential SQL injection vulnerability. Use parameterized queries.''\<rparr>,
      \<lparr>pat_name = ''xss-vulnerability'', pat_pattern = src_xss_m, pat_severity = Warning,
       pat_message = ''Potential XSS vulnerability. Sanitize user input before rendering.''\<rparr>,
      \<lparr>pat_name = ''insecure-http'', pat_pattern = src_http_m, pat_severity = Warning,
       pat_message = ''Insecure HTTP protocol detected. Use HTTPS in production.''\<rparr>,
      \<lparr>pat_name = ''credit-card-data'', pat_pattern = src_credit_card_m, pat_severity = Error,
       pat_message = ''Credit card data handling detected. Ensure PCI DSS compliance.''\<rparr>,
      \<lparr>pat_name = ''personal-data'', pat_pattern = src_personal_m, pat_severity = Warning,
       pat_message = ''Personal data handling detected. Ensure GDPR/privacy compliance.''\<rparr>]"

text \<open>
  What the \<^verbatim>\<open>RegExp\<close> constructor makes of each of these sources. \<open>sep\<close> is \<^verbatim>\<open>[_-]?\<close>,
  \<open>assign\<close> is \<^verbatim>\<open>\s*[=:]\<close>, \<open>quote\<close> is \<^verbatim>\<open>["']\<close>.
\<close>

definition sep :: regex where
  "sep = Opt (oneOf ''_-'')"

definition assign :: regex where
  "assign = Seq (Star ws) (oneOf ''=:'')"

definition quote :: regex where
  "quote = oneOf [dq, sq]"

definition sqlVerb :: regex where
  "sqlVerb = alts [lits ''SELECT'', lits ''INSERT'', lits ''UPDATE'', lits ''DELETE'']"

definition re_api_key :: regex where
  "re_api_key =
     seqs [alts [seqs [lits ''api'', sep, lits ''key''], seqs [lits ''secret'', sep, lits ''key''],
                 seqs [lits ''access'', sep, lits ''token'']],
           assign, Star ws, quote, AtLeast 10 alnum, quote]"

definition re_password :: regex where
  "re_password = seqs [lits ''password'', assign, Star ws, quote, AtLeast 3 (noneOf [dq, sq]), quote]"

definition re_sql :: regex where
  "re_sql =
     Alt (seqs [sqlVerb, Star AnyChar, oneOf ''+'', Star AnyChar, oneOf ''$''])
         (seqs [oneOf ''$'', oneOf ''{'', Star AnyChar, oneOf ''}''])"

definition re_xss :: regex where
  "re_xss =
     Alt (seqs [lits ''innerHTML'', Star ws, Lit CHR ''='', Star ws, Star (noneOf [dq, sq]),
                oneOf ''$''])
         (lits ''dangerouslySetInnerHTML'')"

definition re_http :: regex where
  "re_http =
     Seq (lits ''http://'')
         (NegLook (alts [lits ''localhost'', lits ''127.0.0.1'', lits ''0.0.0.0'']))"

definition re_api_key_m :: regex where
  "re_api_key_m =
     seqs [alts [seqs [lits ''api'', sep, lits ''key''], seqs [lits ''secret'', sep, lits ''key'']],
           assign, Star ws, quote, AtLeast 10 alnum, quote]"

definition re_password_m :: regex where
  "re_password_m = seqs [lits ''password'', assign, Star ws, quote, Plus (noneOf [dq, sq]), quote]"

definition re_sql_m :: regex where
  "re_sql_m =
     Alt (seqs [sqlVerb, Star AnyChar, Lit CHR ''+'', Star AnyChar, Lit CHR ''$''])
         (seqs [Lit CHR ''$'', Lit CHR ''{'', Star AnyChar, Lit CHR ''}''])"

definition re_xss_m :: regex where
  "re_xss_m =
     Alt (seqs [lits ''innerHTML'', Star ws, Lit CHR ''='', Star ws, Star (noneOf [dq, sq]),
                Lit CHR ''$''])
         (lits ''dangerouslySetInnerHTML'')"

definition re_http_m :: regex where
  "re_http_m = Seq (lits ''http://'') (NegLook (alts [lits ''localhost'', lits ''127.0.0.1'']))"

definition re_credit_card_m :: regex where
  "re_credit_card_m =
     seqs [alts [seqs [lits ''credit'', sep, lits ''card''], seqs [lits ''cc'', sep, lits ''number''],
                 seqs [lits ''card'', sep, lits ''number'']],
           assign]"

definition re_personal_m :: regex where
  "re_personal_m =
     seqs [alts [lits ''ssn'', seqs [lits ''social'', sep, lits ''security''],
                 seqs [lits ''phone'', sep, lits ''number''],
                 seqs [lits ''email'', sep, lits ''address'']],
           assign]"

definition repositoryRegExp :: "string \<Rightarrow> regex option" where
  "repositoryRegExp =
     map_of [(src_api_key, re_api_key), (src_password, re_password), (src_sql, re_sql),
             (src_xss, re_xss), (src_http, re_http),
             (src_api_key_m, re_api_key_m), (src_password_m, re_password_m),
             (src_sql_m, re_sql_m), (src_xss_m, re_xss_m), (src_http_m, re_http_m),
             (src_credit_card_m, re_credit_card_m), (src_personal_m, re_personal_m)]"

section \<open>ContinuityChecker\<close>

text \<open>Printing a line number: the decimal digits of a natural number.\<close>

function showNat :: "nat \<Rightarrow> string" where
  "showNat n = (if n < 10 then [''0123456789'' ! n] else showNat (n div 10) @ [''0123456789'' ! (n mod 10)])"
  by pat_completeness auto
termination
  by (relation "measure id") auto

declare showNat.simps [simp del]

definition anyQuote :: regex where
  "anyQuote = oneOf [sq, dq, bq]"

definition httpVerb :: regex where
  "httpVerb = alts [lits ''get'', lits ''post'', lits ''put'', lits ''delete'', lits ''patch'']"

text \<open>
  \<^verbatim>\<open>parseApiCall\<close>: the method is the verb after the first dot that is followed by one
  (pattern \<^verbatim>\<open>/\.(get|post|put|delete|patch)/i\<close>), upper-cased, or \<^verbatim>\<open>GET\<close>; the path is the
  first quoted, non-empty run (pattern \<^verbatim>\<open>/['"`]([^'"`]+)['"`]/\<close>), or the empty string.
  The result is the pair (method, path).
\<close>

definition parseApiCall :: "string \<Rightarrow> string \<times> string" where
  "parseApiCall call =
     (let methodMatch = matchGroup True (Lit CHR ''.'') httpVerb Eps call;
          pathMatch = matchGroup False anyQuote (Plus (noneOf [sq, dq, bq])) anyQuote call
      in ((case methodMatch of Some m \<Rightarrow> toUpperCase m | None \<Rightarrow> ''GET''),
          (case pathMatch of Some p \<Rightarrow> p | None \<Rightarrow> [])))"

text \<open>
  \<^verbatim>\<open>parseApiCallWithLocation\<close>: \<^verbatim>\<open>const [fileInfo, callInfo] = call.split(':')\<close> takes the
  first two pieces. Without a colon \<^verbatim>\<open>callInfo\<close> is undefined and \<^verbatim>\<open>callInfo.match\<close>
  throws. The result is (method, path, file, line), the line always 1.
\<close>

definition parseApiCallWithLocation :: "string \<Rightarrow> JsError + (string \<times> string \<times> string \<times> nat)" where
  "parseApiCallWithLocation call =
     (case split call CHR '':'' of
        fileInfo # callInfo # others \<Rightarrow>
          (case parseApiCall callInfo of (method, path) \<Rightarrow> Inr (method, path, fileInfo, 1))
      | _ \<Rightarrow> Inl TypeError)"

definition inferParameters :: "string \<Rightarrow> ApiParameter list" where
  "inferParameters call = []"

definition shouldRequireAuth :: "string \<Rightarrow> bool" where
  "shouldRequireAuth path =
     list_ex (\<lambda>authPath. includesStr (toLowerCase path) authPath)
       [''user'', ''profile'', ''dashboard'', ''admin'', ''account'']"

definition declaredEndpoints :: "ProjectContext \<Rightarrow> ApiEndpoint list" where
  \<comment> \<open>\<^verbatim>\<open>this.context.api?.endpoints || []\<close>\<close>
  "declaredEndpoints ctx =
     (case api ctx of None \<Rightarrow> [] | Some a \<Rightarrow> (case endpoints a of None \<Rightarrow> [] | Some es \<Rightarrow> es))"

fun missingLoop :: "string list \<Rightarrow> string list \<Rightarrow> ApiEndpoint list \<Rightarrow> ApiEndpoint list" where
  "missingLoop existingPaths [] missingEndpoints = missingEndpoints"
| "missingLoop existingPaths (call # calls) missingEndpoints =
     (case parseApiCall call of
        (method, path) \<Rightarrow>
          missingLoop existingPaths calls
            (if path \<noteq> [] \<and> path \<notin> set existingPaths
             then missingEndpoints @
               [\<lparr>ep_path = path, ep_method = method,
                 ep_description = Some (''Auto-generated endpoint for '' @ path),
                 ep_parameters = Some (inferParameters call),
                 ep_authentication = Some (shouldRequireAuth path)\<rparr>]
             else missingEndpoints))"

definition generateMissingEndpoints :: "ProjectContext \<Rightarrow> string list \<Rightarrow> ApiEndpoint list" where
  "generateMissingEndpoints ctx frontendCalls =
     missingLoop (map ep_path (declaredEndpoints ctx)) frontendCalls []"

text \<open>
  What the lexical discovery over the files of a project returned: the result of each
  \<^verbatim>\<open>find...\<close> method, or the error of a file that could not be read. A frontend call is the
  string \<^verbatim>\<open>file:match\<close>; a component usage is (componentName, file, line), a route usage
  (route, file, line), an authentication call (type, endpoint, file, line).
\<close>

record Discovery =
  findFrontendApiCalls :: "JsError + string list"
  findComponentDefinitions :: "JsError + string list"
  findComponentUsages :: "JsError + (string \<times> string \<times> nat) list"
  findRouteDefinitions :: "JsError + string list"
  findRouteUsages :: "JsError + (string \<times> string \<times> nat) list"
  findAuthenticationCalls :: "JsError + (string \<times> string \<times> string \<times> nat) list"

text \<open>The first loop of \<^verbatim>\<open>checkApiContinuity\<close>: frontend calls without an endpoint.\<close>

fun unmatchedCalls ::
  "ApiEndpoint list \<Rightarrow> string list \<Rightarrow> ContinuityIssue list \<Rightarrow> JsError + ContinuityIssue list" where
  "unmatchedCalls backendEndpoints [] issues = Inr issues"
| "unmatchedCalls backendEndpoints (call # calls) issues =
     (case parseApiCallWithLocation call of
        Inl e \<Rightarrow> Inl e
      | Inr (method, path, file, line) \<Rightarrow>
          unmatchedCalls backendEndpoints calls
            (if \<not> list_ex (\<lambda>endpoint. ep_path endpoint = path \<and> ep_method endpoint = method)
                     backendEndpoints
             then issues @
               [\<lparr>ci_type = ApiMismatch,
                 ci_frontend = file @ '':'' @ showNat line @ '' - '' @ method @ '' '' @ path,
                 ci_backend = ''No matching endpoint found'',
                 ci_message = ''Frontend calls '' @ method @ '' '' @ path
                    @ '' but no matching backend endpoint exists'',
                 ci_suggestion = ''Add '' @ method @ '' '' @ path
                    @ '' endpoint to your backend or update the frontend call''\<rparr>]
             else issues))"

text \<open>The second loop: declared endpoints that no frontend call uses.\<close>

fun unusedEndpoints ::
  "string list \<Rightarrow> ApiEndpoint list \<Rightarrow> ContinuityIssue list \<Rightarrow> ContinuityIssue list" where
  "unusedEndpoints frontendCalls [] issues = issues"
| "unusedEndpoints frontendCalls (endpoint # rest) issues =
     unusedEndpoints frontendCalls rest
       (if \<not> list_ex (\<lambda>call. case parseApiCall call of
                 (method, path) \<Rightarrow> ep_path endpoint = path \<and> ep_method endpoint = method)
               frontendCalls
        then issues @
          [\<lparr>ci_type = ApiMismatch,
            ci_frontend = ''No frontend usage found'',
            ci_backend = ep_method endpoint @ '' '' @ ep_path endpoint,
            ci_message = ''Backend endpoint '' @ ep_method endpoint @ '' '' @ ep_path endpoint
               @ '' is not used by any frontend code'',
            ci_suggestion = ''Remove unused endpoint or add frontend usage if needed''\<rparr>]
        else issues)"

definition checkApiContinuity :: "Discovery \<Rightarrow> ProjectContext \<Rightarrow> JsError + ContinuityIssue list" where
  "checkApiContinuity d ctx =
     (case findFrontendApiCalls d of
        Inl e \<Rightarrow> Inl e
      | Inr frontendCalls \<Rightarrow>
          (let backendEndpoints = declaredEndpoints ctx in
           case unmatchedCalls backendEndpoints frontendCalls [] of
             Inl e \<Rightarrow> Inl e
           | Inr issues \<Rightarrow> Inr (unusedEndpoints frontendCalls backendEndpoints issues)))"

definition checkComponentContinuity :: "Discovery \<Rightarrow> ProjectContext \<Rightarrow> JsError + ContinuityIssue list" where
  "checkComponentContinuity d ctx =
     (case findComponentDefinitions d of
        Inl e \<Rightarrow> Inl e
      | Inr definedComponents \<Rightarrow>
          (case findComponentUsages d of
             Inl e \<Rightarrow> Inl e
           | Inr componentUsages \<Rightarrow>
               Inr (map (\<lambda>(componentName, file, line).
                      \<lparr>ci_type = ComponentMissing,
                       ci_frontend = file @ '':'' @ showNat line @ '' - Uses '' @ componentName,
                       ci_backend = ''Component definition not found'',
                       ci_message = ''Component '' @ componentName @ '' is used but not defined'',
                       ci_suggestion = ''Create '' @ componentName
                          @ '' component or check import path''\<rparr>)
                    (filter (\<lambda>(componentName, file, line). componentName \<notin> set definedComponents)
                       componentUsages))))"

definition checkRouteContinuity :: "Discovery \<Rightarrow> ProjectContext \<Rightarrow> JsError + ContinuityIssue list" where
  "checkRouteContinuity d ctx =
     (case findRouteDefinitions d of
        Inl e \<Rightarrow> Inl e
      | Inr definedRoutes \<Rightarrow>
          (case findRouteUsages d of
             Inl e \<Rightarrow> Inl e
           | Inr routeUsages \<Rightarrow>
               Inr (map (\<lambda>(route, file, line).
                      \<lparr>ci_type = RouteUndefined,
                       ci_frontend = file @ '':'' @ showNat line @ '' - Navigates to '' @ route,
                       ci_backend = ''Route definition not found'',
                       ci_message = ''Navigation to '' @ route @ '' found but route is not defined'',
                       ci_suggestion = ''Define route '' @ route
                          @ '' in your router configuration''\<rparr>)
                    (filter (\<lambda>(route, file, line). route \<notin> set definedRoutes) routeUsages))))"

definition checkAuthenticationContinuity ::
  "Discovery \<Rightarrow> ProjectContext \<Rightarrow> JsError + ContinuityIssue list" where
  "checkAuthenticationContinuity d ctx =
     (if (case authentication ctx of None \<Rightarrow> True | Some a \<Rightarrow> auth_type a = Some ''none'')
      then Inr []
      else
        (case findAuthenticationCalls d of
           Inl e \<Rightarrow> Inl e
         | Inr authCalls \<Rightarrow>
             (let authEndpoints =
                    filter (\<lambda>e. includesStr (ep_path e) ''auth'' \<or> truthyBool (ep_authentication e))
                      (declaredEndpoints ctx)
              in Inr (map (\<lambda>(type, endpoint, file, line).
                        \<lparr>ci_type = AuthMismatch,
                         ci_frontend = file @ '':'' @ showNat line @ '' - '' @ type
                            @ '' call to '' @ endpoint,
                         ci_backend = ''Auth endpoint not found'',
                         ci_message = ''Frontend makes '' @ type @ '' call to '' @ endpoint
                            @ '' but endpoint is not defined'',
                         ci_suggestion = ''Add '' @ endpoint
                            @ '' authentication endpoint to your backend''\<rparr>)
                      (filter (\<lambda>(type, endpoint, file, line).
                                 \<not> list_ex (\<lambda>e. ep_path e = endpoint) authEndpoints)
                         authCalls)))))"

definition checkContinuity :: "Discovery \<Rightarrow> ProjectContext \<Rightarrow> JsError + ContinuityIssue list" where
  "checkContinuity d ctx =
     (case checkApiContinuity d ctx of
        Inl e \<Rightarrow> Inl e
      | Inr apiIssues \<Rightarrow>
          (case checkComponentContinuity d ctx of
             Inl e \<Rightarrow> Inl e
           | Inr componentIssues \<Rightarrow>
               (case checkRouteContinuity d ctx of
                  Inl e \<Rightarrow> Inl e
                | Inr routeIssues \<Rightarrow>
                    (case checkAuthenticationContinuity d ctx of
                       Inl e \<Rightarrow> Inl e
                     | Inr authIssues \<Rightarrow>
                         Inr (apiIssues @ componentIssues @ routeIssues @ authIssues)))))"

section \<open>ContextMemory (the class)\<close>

text \<open>
  The object: the context it shares with its caller, and the cap. The cap is a JavaScript
  number; the model takes the integers, negative ones included.
\<close>

record ContextMemoryClass =
  "context" :: ProjectContext
  maxInteractions :: int

definition emptyMemory :: ContextMemory where
  "emptyMemory = \<lparr>lastUpdated = None, aiInteractions = None, codeGeneration = None\<rparr>"

definition memoryOf :: "ProjectContext \<Rightarrow> ContextMemory" where
  \<comment> \<open>after \<^verbatim>\<open>if (!context.contextMemory) context.contextMemory = {}\<close>\<close>
  "memoryOf ctx = (case contextMemory ctx of None \<Rightarrow> emptyMemory | Some m \<Rightarrow> m)"

definition interactionsOf :: "ContextMemory \<Rightarrow> AiInteraction list" where
  \<comment> \<open>after \<^verbatim>\<open>if (!contextMemory.aiInteractions) contextMemory.aiInteractions = []\<close>\<close>
  "interactionsOf m = (case aiInteractions m of None \<Rightarrow> [] | Some xs \<Rightarrow> xs)"

text \<open>
  \<^verbatim>\<open>recordInteraction\<close>. The clock is read twice (\<^verbatim>\<open>new Date().toISOString()\<close>): \<open>t1\<close> is
  the reading for the interaction, \<open>t2\<close> the one for \<^verbatim>\<open>lastUpdated\<close>. The object is
  returned with its context updated.
\<close>

definition recordInteraction ::
  "ContextMemoryClass \<Rightarrow> string \<Rightarrow> string \<Rightarrow> string \<Rightarrow> string option \<Rightarrow> string \<Rightarrow> string
     \<Rightarrow> ContextMemoryClass" where
  "recordInteraction this action contextInfo result metadata t1 t2 =
     (let m = memoryOf (context this);
          interaction = \<lparr>ai_timestamp = t1, ai_action = action, ai_context = contextInfo,
                          ai_result = result, ai_metadata = metadata\<rparr>;
          unshifted = interaction # interactionsOf m;
          kept = (if int (length unshifted) > maxInteractions this
                  then slice_to unshifted (maxInteractions this) else unshifted)
      in this\<lparr>context := (context this)
           \<lparr>contextMemory := Some (m\<lparr>aiInteractions := Some kept, lastUpdated := Some t2\<rparr>)\<rparr>\<rparr>)"

text \<open>
  A sequence of calls, each with its arguments
  (action, contextInfo, result, metadata, t1, t2).
\<close>

type_synonym call_args = "string \<times> string \<times> string \<times> string option \<times> string \<times> string"

definition interactionOf :: "call_args \<Rightarrow> AiInteraction" where
  "interactionOf = (\<lambda>(action, contextInfo, result, metadata, t1, t2).
     \<lparr>ai_timestamp = t1, ai_action = action, ai_context = contextInfo,
      ai_result = result, ai_metadata = metadata\<rparr>)"

fun recordInteractions :: "ContextMemoryClass \<Rightarrow> call_args list \<Rightarrow> ContextMemoryClass" where
  "recordInteractions this [] = this"
| "recordInteractions this ((action, contextInfo, result, metadata, t1, t2) # calls) =
     recordInteractions (recordInteraction this action contextInfo result metadata t1 t2) calls"

subsection \<open>Counting the actions\<close>

text \<open>
  \<^verbatim>\<open>actionCounts\<close> is an object literal used as a dictionary. The model is the list of its
  own properties in property order, the order in which \<^verbatim>\<open>Object.entries\<close> lists them: the
  keys that are array indices first, in ascending numeric order, then the other keys in the
  order of their creation.

  A value is declared a number. For an action named like a function member of
  \<^verbatim>\<open>Object.prototype\<close> (such as \<^verbatim>\<open>constructor\<close>) the first read finds the inherited function,
  which is truthy, and \<^verbatim>\<open>+ 1\<close> appends the character 1 to its source text; the assignment
  then creates an own property holding that string, and every later count appends one more
  1. \<open>MemberText k n\<close> is the source text of the member \<open>k\<close> followed by \<open>n\<close> characters 1.
\<close>

datatype Count = Number nat | MemberText string nat

definition decimalValue :: "string \<Rightarrow> nat" where
  "decimalValue s = foldl (\<lambda>n c. 10 * n + (of_char c - 48)) 0 s"

definition isArrayIndex :: "string \<Rightarrow> bool" where
  "isArrayIndex s =
     (s \<noteq> [] \<and> list_all (\<lambda>c. c \<in> set ''0123456789'') s \<and> (s = ''0'' \<or> hd s \<noteq> CHR ''0'')
      \<and> decimalValue s < 4294967295)"

fun insertIndexKey :: "string \<Rightarrow> Count \<Rightarrow> (string \<times> Count) list \<Rightarrow> (string \<times> Count) list" where
  "insertIndexKey k v [] = [(k, v)]"
| "insertIndexKey k v ((k', v') # rest) =
     (if isArrayIndex k' \<and> decimalValue k' < decimalValue k
      then (k', v') # insertIndexKey k v rest
      else (k, v) # (k', v') # rest)"

text \<open>
  The assignment \<^verbatim>\<open>actionCounts[key] = value\<close> for a key other than \<^verbatim>\<open>__proto__\<close>: an own
  property keeps its place, a new one takes its place in property order.
\<close>

definition setProperty :: "(string \<times> Count) list \<Rightarrow> string \<Rightarrow> Count \<Rightarrow> (string \<times> Count) list" where
  "setProperty obj key v =
     (if key \<in> set (map fst obj) then map (\<lambda>(k, w). if k = key then (k, v) else (k, w)) obj
      else if isArrayIndex key then insertIndexKey key v obj
      else obj @ [(key, v)])"

text \<open>
  \<^verbatim>\<open>actionCounts[action] = (actionCounts[action] || 0) + 1\<close>. For the action \<^verbatim>\<open>__proto__\<close>
  the read goes to the inherited accessor and yields the prototype object, the sum is a
  string, and the assignment goes to the accessor as well, which ignores a value that is
  not an object: no property is created.
\<close>

definition countAction :: "(string \<times> Count) list \<Rightarrow> string \<Rightarrow> (string \<times> Count) list" where
  "countAction actionCounts action =
     (case map_of actionCounts action of
        Some (Number n) \<Rightarrow> setProperty actionCounts action (Number (n + 1))
      | Some (MemberText k n) \<Rightarrow> setProperty actionCounts action (MemberText k (n + 1))
      | None \<Rightarrow>
          if action = ''__proto__'' then actionCounts
          else if action \<in> set objectPrototypeMembers
            then setProperty actionCounts action (MemberText action 1)
          else setProperty actionCounts action (Number 1))"

text \<open>
  The comparator \<^verbatim>\<open>([, a], [, b]) => b - a\<close>: the difference of two numbers, and \<^verbatim>\<open>NaN\<close> as
  soon as one of the two values is such a string.
\<close>

datatype Difference = Finite int | NaN

definition byCountDescending :: "string \<times> Count \<Rightarrow> string \<times> Count \<Rightarrow> Difference" where
  "byCountDescending x y =
     (case (snd x, snd y) of
        (Number a, Number b) \<Rightarrow> Finite (int b - int a)
      | _ \<Rightarrow> NaN)"

text \<open>
  \<^verbatim>\<open>Array.prototype.sort\<close> belongs to the engine, and the order it produces is left to the
  engine when the comparator is not consistent on the elements, as a comparator that
  returns \<^verbatim>\<open>NaN\<close> for some pairs can be. The sort is therefore a parameter of the methods
  that call it.
\<close>

type_synonym ArraySort =
  "(string \<times> Count \<Rightarrow> string \<times> Count \<Rightarrow> Difference) \<Rightarrow> (string \<times> Count) list
     \<Rightarrow> (string \<times> Count) list"

text \<open>
  The order the language prescribes for a consistent comparator is the stable one; the
  insertion sort below produces it. It reads \<^verbatim>\<open>NaN\<close> as +0, as the language does with the
  result of a comparator.
\<close>

definition positive :: "Difference \<Rightarrow> bool" where
  "positive v = (case v of Finite d \<Rightarrow> d > 0 | NaN \<Rightarrow> False)"

fun insertSorted ::
  "('a \<Rightarrow> 'a \<Rightarrow> Difference) \<Rightarrow> 'a \<Rightarrow> 'a list \<Rightarrow> 'a list" where
  "insertSorted comparefn x [] = [x]"
| "insertSorted comparefn x (y # ys) =
     (if positive (comparefn x y) then y # insertSorted comparefn x ys else x # y # ys)"

definition stableSort :: "('a \<Rightarrow> 'a \<Rightarrow> Difference) \<Rightarrow> 'a list \<Rightarrow> 'a list" where
  "stableSort comparefn xs = foldr (insertSorted comparefn) xs []"

definition isNumber :: "Count \<Rightarrow> bool" where
  "isNumber v = (case v of Number n \<Rightarrow> True | MemberText k n \<Rightarrow> False)"

text \<open>
  What is required of an engine: on entries whose values are all numbers, where the
  comparator is consistent, its sort by descending count is the stable one.
\<close>

definition sortsNumbers :: "ArraySort \<Rightarrow> bool" where
  "sortsNumbers arraySort =
     (\<forall>entries. list_all (\<lambda>e. isNumber (snd e)) entries \<longrightarrow>
        arraySort byCountDescending entries = stableSort byCountDescending entries)"

definition commonActions :: "ArraySort \<Rightarrow> AiInteraction list \<Rightarrow> (string \<times> Count) list" where
  \<comment> \<open>\<^verbatim>\<open>Object.entries(actionCounts).sort(...).slice(0, 5)\<close>; an entry is the pair (action, count)\<close>
  "commonActions arraySort interactions =
     slice_to (arraySort byCountDescending (foldl countAction [] (map ai_action interactions))) 5"

text \<open>
  \<^verbatim>\<open>analyzeInteractionPatterns().commonActions\<close>: empty without interactions, in which case
  the method returns before it counts. (The other fields of the analysis are not read by
  \<^verbatim>\<open>generateSuggestions\<close>, and computing them does not throw.)
\<close>

definition analyzedCommonActions :: "ArraySort \<Rightarrow> ProjectContext \<Rightarrow> (string \<times> Count) list" where
  "analyzedCommonActions arraySort ctx =
     (case contextMemory ctx of
        None \<Rightarrow> []
      | Some m \<Rightarrow>
          (case aiInteractions m of
             None \<Rightarrow> []
           | Some xs \<Rightarrow> if xs = [] then [] else commonActions arraySort xs))"



subsection \<open>Suggestions and maturity\<close>

definition hasEndpoints :: "ProjectContext \<Rightarrow> bool" where
  \<comment> \<open>\<^verbatim>\<open>context.api?.endpoints && context.api.endpoints.length > 0\<close>\<close>
  "hasEndpoints ctx = (declaredEndpoints ctx \<noteq> [])"

definition authConfigured :: "ProjectContext \<Rightarrow> bool" where
  \<comment> \<open>\<^verbatim>\<open>context.authentication && context.authentication.type !== 'none'\<close>\<close>
  "authConfigured ctx =
     (case authentication ctx of None \<Rightarrow> False | Some a \<Rightarrow> auth_type a \<noteq> Some ''none'')"

definition httpsEnforced :: "ProjectContext \<Rightarrow> bool" where
  \<comment> \<open>\<^verbatim>\<open>context.security?.rules?.enforceHttps\<close>\<close>
  "httpsEnforced ctx =
     (case security ctx of
        None \<Rightarrow> False
      | Some sec \<Rightarrow> (case rules sec of None \<Rightarrow> False | Some r \<Rightarrow> truthyBool (enforceHttps r)))"

definition hasModels :: "ProjectContext \<Rightarrow> bool" where
  \<comment> \<open>\<^verbatim>\<open>context.database?.models && context.database.models.length > 0\<close>\<close>
  "hasModels ctx =
     (case database ctx of
        None \<Rightarrow> False
      | Some db \<Rightarrow> (case models db of None \<Rightarrow> False | Some ms \<Rightarrow> ms \<noteq> []))"

definition hasComponents :: "ProjectContext \<Rightarrow> bool" where
  \<comment> \<open>\<^verbatim>\<open>context.frontend?.components && context.frontend.components.length > 0\<close>\<close>
  "hasComponents ctx =
     (case frontend ctx of
        None \<Rightarrow> False
      | Some f \<Rightarrow> (case components f of None \<Rightarrow> False | Some cs \<Rightarrow> cs \<noteq> []))"

definition platformSet :: "ProjectContext \<Rightarrow> bool" where
  \<comment> \<open>\<^verbatim>\<open>context.deployment?.platform\<close>\<close>
  "platformSet ctx =
     (case deployment ctx of None \<Rightarrow> False | Some dep \<Rightarrow> truthyString (platform dep))"

definition topActionSuggestion :: "string \<Rightarrow> string list" where
  "topActionSuggestion action =
     (if action = ''component-creation''
        then [''Consider creating a component library for reusable components'']
      else if action = ''api-endpoint-creation''
        then [''Consider implementing API documentation with Swagger/OpenAPI'']
      else if action = ''security-fix''
        then [''Consider implementing automated security scanning in your CI/CD pipeline'']
      else if action = ''database-model''
        then [''Consider setting up database migrations for schema changes'']
      else [])"

text \<open>
  \<^verbatim>\<open>generateSuggestions\<close>: the array \<^verbatim>\<open>suggestions\<close> after the pushes, and the slice the
  method returns.
\<close>

definition pushedSuggestions :: "ArraySort \<Rightarrow> ContextMemoryClass \<Rightarrow> string list" where
  "pushedSuggestions arraySort this =
     (let ctx = context this;
          s0 = [];
          s1 = (case analyzedCommonActions arraySort ctx of
                  [] \<Rightarrow> s0
                | (action, count) # rest \<Rightarrow> s0 @ topActionSuggestion action);
          s2 = (if \<not> hasEndpoints ctx
                then s1 @ [''Define your API endpoints in the project context for better continuity checking'']
                else s1);
          s3 = (if \<not> authConfigured ctx
                then s2 @ [''Consider implementing authentication for your application'']
                else s2);
          s4 = (if \<not> httpsEnforced ctx
                then s3 @ [''Enable HTTPS enforcement for production security'']
                else s3);
          s5 = (if \<not> hasComponents ctx
                then s4 @ [''Document your frontend components for better project understanding'']
                else s4);
          s6 = (if \<not> hasModels ctx
                then s5 @ [''Define your database models in the project context'']
                else s5)
      in s6)"

definition generateSuggestions :: "ArraySort \<Rightarrow> ContextMemoryClass \<Rightarrow> string list" where
  "generateSuggestions arraySort this = slice_to (pushedSuggestions arraySort this) 5"

text \<open>
  The rule list in the words of the specification. The actions on record are those of the
  interactions of the context; an action is a most frequent one when it is on record and no
  action occurs more often. The completeness rules follow, each with the facet whose
  absence triggers it; the missing sections are the texts of the rules that fire, in the
  order of the rules.
\<close>

definition recordedActions :: "ProjectContext \<Rightarrow> string list" where
  "recordedActions ctx = map ai_action (interactionsOf (memoryOf ctx))"




text \<open>
  \<^verbatim>\<open>assessProjectMaturity\<close>: the local variable \<^verbatim>\<open>score\<close> after the six additions, and the
  label the method returns.
\<close>

definition maturityScore :: "ContextMemoryClass \<Rightarrow> nat" where
  "maturityScore this =
     (let ctx = context this;
          score = 0;
          score = (if hasEndpoints ctx then score + 20 else score);
          score = (if authConfigured ctx then score + 20 else score);
          score = (if httpsEnforced ctx then score + 15 else score);
          score = (if hasModels ctx then score + 15 else score);
          score = (if hasComponents ctx then score + 15 else score);
          score = (if platformSet ctx then score + 15 else score)
      in score)"

definition assessProjectMaturity :: "ContextMemoryClass \<Rightarrow> string" where
  "assessProjectMaturity this =
     (let score = maturityScore this in
      if score \<ge> 80 then ''mature''
      else if score \<ge> 50 then ''developing''
      else if score \<ge> 25 then ''early''
      else ''initial'')"

text \<open>
  The scoring in the words of the specification: six facets, each with a weight, and the
  score the sum of the weights of the facets that hold.
\<close>

definition facets :: "((ProjectContext \<Rightarrow> bool) \<times> nat) list" where
  "facets = [(hasEndpoints, 20), (authConfigured, 20), (httpsEnforced, 15), (hasModels, 15),
             (hasComponents, 15), (platformSet, 15)]"

definition weightedScore :: "ProjectContext \<Rightarrow> nat" where
  "weightedScore ctx = sum_list (map (\<lambda>(facet, weight). if facet ctx then weight else 0) facets)"

section \<open>ProjectContextManager\<close>

text \<open>
  The constructor reads the schema from \<^verbatim>\<open>schemas/project-context.schema.json\<close> (the file
  is printed in \<^verbatim>\<open>src/vscode-extension/package.json\<close>; it requires \<^verbatim>\<open>project\<close> and
  \<^verbatim>\<open>security\<close>) and hands it to the library Ajv, which compiles it. The compiled schema is
  a parameter of the manager: \<open>getSchema\<close> is \<open>None\<close> when no schema was loaded, and
  otherwise the function \<^verbatim>\<open>validate\<close>, which returns its verdict together with
  \<^verbatim>\<open>validate.errors\<close>. The call \<^verbatim>\<open>ajv.getSchema\<close> is taken to return.
\<close>

record AjvError =
  instancePath :: string
  ajv_message :: "string option"

type_synonym ValidateFunction = "ProjectContext \<Rightarrow> bool \<times> AjvError list option"

record ProjectContextManager =
  getSchema :: "ValidateFunction option"

definition schemaErrors :: "ProjectContextManager \<Rightarrow> ProjectContext \<Rightarrow> ValidationError list" where
  "schemaErrors this ctx =
     (case getSchema this of
        None \<Rightarrow> []
      | Some validate \<Rightarrow>
          (case validate ctx of
             (True, es) \<Rightarrow> []
           | (False, None) \<Rightarrow> []
           | (False, Some es) \<Rightarrow>
               map (\<lambda>error.
                      \<lparr>ve_path = (if instancePath error = [] then ''root'' else instancePath error),
                       ve_message = (case ajv_message error of
                                       None \<Rightarrow> ''Unknown validation error''
                                     | Some t \<Rightarrow> if t = [] then ''Unknown validation error'' else t),
                       ve_severity = Error, ve_suggestion = None\<rparr>) es))"

text \<open>
  \<^verbatim>\<open>validateBusinessLogic\<close> works on the context and on the two arrays it is handed; the
  state holds all three, and each of its three checks is a step on the state.
\<close>

record ValidationState =
  v_context :: ProjectContext
  v_errors :: "ValidationError list"
  v_warnings :: "ValidationError list"

definition sensitiveTerms :: "string list" where
  "sensitiveTerms = [''password'', ''email'', ''phone'', ''ssn'', ''credit_card'']"

definition hasSensitiveData :: "DatabaseModel list \<Rightarrow> bool" where
  "hasSensitiveData ms =
     list_ex (\<lambda>model.
        list_ex (\<lambda>field.
           list_ex (\<lambda>sensitive. includesStr (toLowerCase (fld_name field)) sensitive)
             sensitiveTerms)
          (mdl_fields model)) ms"

definition checkEndpointAuth :: "ValidationState \<Rightarrow> ValidationState" where
  "checkEndpointAuth st =
     (case api (v_context st) of
        None \<Rightarrow> st
      | Some a \<Rightarrow>
          (case endpoints a of
             None \<Rightarrow> st
           | Some es \<Rightarrow>
               (case authentication (v_context st) of
                  None \<Rightarrow> st
                | Some auth \<Rightarrow>
                    st\<lparr>v_warnings := v_warnings st @
                         map (\<lambda>endpoint.
                                \<lparr>ve_path = ''api.endpoints['' @ ep_path endpoint @ '']'',
                                 ve_message = ''Endpoint requires authentication but no auth method is configured'',
                                 ve_severity = Warning,
                                 ve_suggestion = Some ''Configure authentication or remove auth requirement from endpoint''\<rparr>)
                           (filter (\<lambda>endpoint. truthyBool (ep_authentication endpoint)
                                       \<and> auth_type auth = Some ''none'') es)\<rparr>)))"

text \<open>
  The two checks that read \<^verbatim>\<open>context.security.rules?.\<close>: \<^verbatim>\<open>rules\<close> may be absent,
  but reading \<^verbatim>\<open>rules\<close> of an absent \<^verbatim>\<open>security\<close> throws.
\<close>

definition securityRule ::
  "ProjectContext \<Rightarrow> (SecurityRules \<Rightarrow> bool option) \<Rightarrow> JsError + bool" where
  "securityRule ctx rule =
     (case security ctx of
        None \<Rightarrow> Inl TypeError
      | Some sec \<Rightarrow> Inr (case rules sec of None \<Rightarrow> False | Some r \<Rightarrow> truthyBool (rule r)))"

definition checkSensitiveData :: "ValidationState \<Rightarrow> JsError + ValidationState" where
  "checkSensitiveData st =
     (case database (v_context st) of
        None \<Rightarrow> Inr st
      | Some db \<Rightarrow>
          (case models db of
             None \<Rightarrow> Inr st
           | Some ms \<Rightarrow>
               if hasSensitiveData ms then
                 (case securityRule (v_context st) inputSanitization of
                    Inl e \<Rightarrow> Inl e
                  | Inr enabled \<Rightarrow>
                      if \<not> enabled then
                        Inr (st\<lparr>v_errors := v_errors st @
                               [\<lparr>ve_path = ''security.rules.inputSanitization'',
                                 ve_message = ''Input sanitization must be enabled when handling sensitive data'',
                                 ve_severity = Error,
                                 ve_suggestion = Some ''Enable inputSanitization in security rules''\<rparr>]\<rparr>)
                      else Inr st)
               else Inr st))"

definition productionDeployment :: "ProjectContext \<Rightarrow> bool" where
  \<comment> \<open>\<^verbatim>\<open>context.deployment?.environment?.production\<close>\<close>
  "productionDeployment ctx =
     (case deployment ctx of
        None \<Rightarrow> False
      | Some dep \<Rightarrow>
          (case environment dep of None \<Rightarrow> False | Some env \<Rightarrow> production env \<noteq> None))"

definition checkProductionHttps :: "ValidationState \<Rightarrow> JsError + ValidationState" where
  "checkProductionHttps st =
     (if productionDeployment (v_context st) then
        (case securityRule (v_context st) enforceHttps of
           Inl e \<Rightarrow> Inl e
         | Inr enabled \<Rightarrow>
             if \<not> enabled then
               Inr (st\<lparr>v_errors := v_errors st @
                      [\<lparr>ve_path = ''security.rules.enforceHttps'',
                        ve_message = ''HTTPS must be enforced in production environment'',
                        ve_severity = Error,
                        ve_suggestion = Some ''Enable enforceHttps in security rules''\<rparr>]\<rparr>)
             else Inr st)
      else Inr st)"

definition validateBusinessLogic :: "ValidationState \<Rightarrow> JsError + ValidationState" where
  "validateBusinessLogic st =
     (case checkSensitiveData (checkEndpointAuth st) of
        Inl e \<Rightarrow> Inl e
      | Inr st' \<Rightarrow> checkProductionHttps st')"

text \<open>
  \<^verbatim>\<open>validateContext\<close>: the result object, together with the context as the call leaves it.
\<close>

definition validateContext ::
  "ProjectContextManager \<Rightarrow> ProjectContext \<Rightarrow> JsError + (ValidationResult \<times> ProjectContext)" where
  "validateContext this ctx =
     (case validateBusinessLogic
             \<lparr>v_context = ctx, v_errors = schemaErrors this ctx, v_warnings = []\<rparr> of
        Inl e \<Rightarrow> Inl e
      | Inr st \<Rightarrow>
          Inr (\<lparr>valid = (length (v_errors st) = 0), errors = v_errors st,
                warnings = v_warnings st\<rparr>, v_context st))"

text \<open>
  \<^verbatim>\<open>recordAiInteraction\<close>, with the one reading \<open>t\<close> of the clock; the context is returned
  as the call leaves it.
\<close>

definition recordAiInteraction ::
  "ProjectContext \<Rightarrow> string \<Rightarrow> string \<Rightarrow> string \<Rightarrow> string \<Rightarrow> ProjectContext" where
  "recordAiInteraction ctx action contextInfo result t =
     (let m = memoryOf ctx;
          pushed = interactionsOf m @
            [\<lparr>ai_timestamp = t, ai_action = action, ai_context = contextInfo,
              ai_result = result, ai_metadata = None\<rparr>];
          kept = (if length pushed > 50 then slice_from pushed (- 50) else pushed)
      in ctx\<lparr>contextMemory := Some (m\<lparr>aiInteractions := Some kept\<rparr>)\<rparr>)"

text \<open>A sequence of calls, each with its arguments (action, contextInfo, result, t).\<close>

fun recordAiInteractions ::
  "ProjectContext \<Rightarrow> (string \<times> string \<times> string \<times> string) list \<Rightarrow> ProjectContext" where
  "recordAiInteractions ctx [] = ctx"
| "recordAiInteractions ctx ((action, contextInfo, result, t) # calls) =
     recordAiInteractions (recordAiInteraction ctx action contextInfo result t) calls"

definition aiInteractionOf :: "string \<times> string \<times> string \<times> string \<Rightarrow> AiInteraction" where
  "aiInteractionOf = (\<lambda>(action, contextInfo, result, t).
     \<lparr>ai_timestamp = t, ai_action = action, ai_context = contextInfo, ai_result = result,
      ai_metadata = None\<rparr>)"

section \<open>Concrete inputs\<close>

definition baseContext :: ProjectContext where
  "baseContext =
     \<lparr>project = \<lparr>prj_name = ''demo'', prj_description = None, prj_version = None,
                  prj_type = ''web-app'', prj_framework = None\<rparr>,
      architecture = None, api = None,
      security = Some \<lparr>rules = None, patterns = None\<rparr>,
      authentication = None, database = None, frontend = None, deployment = None,
      contextMemory = None\<rparr>"

definition contextWithPatterns :: "SecurityPattern list \<Rightarrow> ProjectContext" where
  "contextWithPatterns ps = baseContext\<lparr>security := Some \<lparr>rules = None, patterns = Some ps\<rparr>\<rparr>"

text \<open>A host whose file system holds one file, and whose \<^verbatim>\<open>RegExp\<close> knows the repository's patterns.\<close>

definition oneFileHost :: "string \<Rightarrow> string \<Rightarrow> Host" where
  "oneFileHost path content =
     \<lparr>compileRegExp = repositoryRegExp,
      readFileSync = (\<lambda>p. if p = path then Some content else None),
      dependencyNames = (\<lambda>c. None)\<rparr>"

definition noRules :: SecurityRules where
  "noRules = \<lparr>enforceHttps = None, inputSanitization = None, sqlInjectionPrevention = None,
     xssProtection = None, csrfProtection = None, corsConfiguration = None, rateLimiting = None,
     dataValidation = None\<rparr>"

definition userModel :: DatabaseModel where
  "userModel = \<lparr>mdl_name = ''User'',
     mdl_fields = [\<lparr>fld_name = ''password'', fld_type = ''string'', fld_required = Some True,
                    fld_unique = None, fld_default = None\<rparr>],
     mdl_relationships = None\<rparr>"

definition productsEndpoint :: ApiEndpoint where
  "productsEndpoint = \<lparr>ep_path = ''/api/products'', ep_method = ''GET'', ep_description = None,
     ep_parameters = None, ep_authentication = None\<rparr>"

definition authOf :: "string \<Rightarrow> AuthenticationConfiguration" where
  "authOf t = \<lparr>auth_type = Some t, auth_config = None, auth_routes = None\<rparr>"

text \<open>A context with every section the suggestions ask for, and no interaction yet.\<close>

definition completeContext :: ProjectContext where
  "completeContext = baseContext
     \<lparr>api := Some \<lparr>baseUrl = None, api_version = None, endpoints = Some [productsEndpoint]\<rparr>,
      security := Some \<lparr>rules = Some (noRules\<lparr>enforceHttps := Some True\<rparr>), patterns = None\<rparr>,
      authentication := Some (authOf ''jwt''),
      database := Some \<lparr>db_type = None, models = Some [userModel]\<rparr>,
      frontend := Some \<lparr>components = Some [\<lparr>cmp_name = ''App'', cmp_path = ''src/App.tsx'',
                                                cmp_props = None, cmp_apiCalls = None\<rparr>],
                         pages = None\<rparr>\<rparr>"

definition memoryWith :: "ProjectContext \<Rightarrow> int \<Rightarrow> ContextMemoryClass" where
  "memoryWith ctx cap = \<lparr>context = ctx, maxInteractions = cap\<rparr>"

text \<open>Contexts for the validator: a model with a field \<^verbatim>\<open>password\<close>, sanitization off.\<close>

definition unsanitizedContext :: ProjectContext where
  "unsanitizedContext = baseContext
     \<lparr>security := Some \<lparr>rules = Some (noRules\<lparr>inputSanitization := Some False\<rparr>),
                          patterns = None\<rparr>,
      database := Some \<lparr>db_type = None, models = Some [userModel]\<rparr>\<rparr>"

definition productionConfig :: DeploymentConfiguration where
  "productionConfig =
     \<lparr>environment = Some \<lparr>development = None,
                            production = Some \<lparr>env_port = None, env_database = None,
                                               env_apiUrl = None\<rparr>\<rparr>,
      platform = None\<rparr>"

definition noSchema :: ProjectContextManager where
  "noSchema = \<lparr>getSchema = None\<rparr>"

definition passwordLine :: string where
  "passwordLine = ''const password = '' @ [dq] @ ''hunter2'' @ [dq] @ '';''"

definition apiKeyLine :: string where
  "apiKeyLine = ''const apiKey = '' @ [dq] @ ''sk_live_abcdef1234567890'' @ [dq] @ '';''"

definition plainKeyLine :: string where
  "plainKeyLine = ''const apiKey = '' @ [dq] @ ''sklive1234567890'' @ [dq] @ '';''"

text \<open>
  The condition under which \<^verbatim>\<open>validateBusinessLogic\<close> reads the sanitization rule: the
  context has database models, and one of them has a field with a sensitive name.
\<close>

definition storesSensitiveData :: "ProjectContext \<Rightarrow> bool" where
  "storesSensitiveData ctx =
     (case database ctx of
        None \<Rightarrow> False
      | Some db \<Rightarrow> (case models db of None \<Rightarrow> False | Some ms \<Rightarrow> hasSensitiveData ms))"

text \<open>
  A context without its \<^verbatim>\<open>security\<close> section and with the model \<^verbatim>\<open>User\<close>, and a compiled
  schema that knows one rule of the schema of the package, \<^verbatim>\<open>required: ["project", "security"]\<close>.
\<close>

definition withoutSecurity :: ProjectContext where
  "withoutSecurity = baseContext
     \<lparr>security := None, database := Some \<lparr>db_type = None, models = Some [userModel]\<rparr>\<rparr>"

definition requiresSecurity :: ProjectContextManager where
  "requiresSecurity =
     \<lparr>getSchema = Some (\<lambda>ctx.
        if security ctx = None
        then (False, Some [\<lparr>instancePath = [],
                             ajv_message = Some (''must have required property '' @ [sq]
                                                @ ''security'' @ [sq])\<rparr>])
        else (True, None))\<rparr>"



text \<open>Three calls of \<^verbatim>\<open>recordInteraction\<close>.\<close>

definition call1 :: call_args where
  "call1 = (''component-creation'', ''login form'', ''created'', None, ''2025-06-26T05:20:57.000Z'', ''2025-06-26T05:20:57.001Z'')"

definition call2 :: call_args where
  "call2 = (''security-fix'', ''api key'', ''moved to env'', None, ''2025-06-26T05:21:10.000Z'', ''2025-06-26T05:21:10.001Z'')"

definition call3 :: call_args where
  "call3 = (''database-model'', ''User'', ''added'', None, ''2025-06-26T05:22:30.000Z'', ''2025-06-26T05:22:30.001Z'')"


definition constructorCall :: call_args where
  "constructorCall = (''constructor'', ''helper'', ''explained'', None, ''2025-06-26T05:23:00.000Z'', ''2025-06-26T05:23:00.001Z'')"

definition memberOnTop :: ContextMemoryClass where
  "memberOnTop = recordInteractions (memoryWith completeContext 100) [call2, call2, constructorCall]"

text \<open>
  Discovery results. \<^verbatim>\<open>findFrontendApiCalls\<close> looks for \<^verbatim>\<open>/fetch\s*\(\s*['"`]([^'"`]+)['"`]/g\<close>:
  in a file with the call \<^verbatim>\<open>fetch('/api/products')\<close> the match ends at the closing quote,
  and the call is stored as file, colon, match.
\<close>

definition fetchPattern :: regex where
  "fetchPattern =
     seqs [lits ''fetch'', Star ws, Lit CHR ''('', Star ws, anyQuote,
           Plus (noneOf [sq, dq, bq]), anyQuote]"

definition fetchProducts :: string where
  "fetchProducts = ''fetch('' @ [sq] @ ''/api/products'' @ [sq]"

definition postProducts :: string where
  "postProducts = ''axios.post('' @ [sq] @ ''/api/products'' @ [sq]"

definition discovered :: "string list \<Rightarrow> Discovery" where
  "discovered calls =
     \<lparr>findFrontendApiCalls = Inr calls, findComponentDefinitions = Inr [],
      findComponentUsages = Inr [], findRouteDefinitions = Inr [], findRouteUsages = Inr [],
      findAuthenticationCalls = Inr []\<rparr>"

text \<open>
  What \<^verbatim>\<open>generateMissingEndpoints\<close> makes of a call, and the calls it makes one for.
\<close>

definition authKeywords :: "string list" where
  "authKeywords = [''user'', ''profile'', ''dashboard'', ''admin'', ''account'']"

definition synthesized :: "string \<Rightarrow> ApiEndpoint" where
  "synthesized call =
     \<lparr>ep_path = snd (parseApiCall call), ep_method = fst (parseApiCall call),
      ep_description = Some (''Auto-generated endpoint for '' @ snd (parseApiCall call)),
      ep_parameters = Some [],
      ep_authentication =
        Some (\<exists>keyword \<in> set authKeywords.
                includesStr (toLowerCase (snd (parseApiCall call))) keyword)\<rparr>"

definition pathUndeclared :: "ProjectContext \<Rightarrow> string \<Rightarrow> bool" where
  "pathUndeclared ctx call =
     (snd (parseApiCall call) \<noteq> []
      \<and> (\<forall>e \<in> set (declaredEndpoints ctx). ep_path e \<noteq> snd (parseApiCall call)))"

text \<open>The rule names of the built-in checks.\<close>

definition builtInRules :: "string list" where
  "builtInRules = [''env-file-security'', ''vulnerable-dependency'', ''eval-usage'',
     ''document-write'', ''console-log-sensitive'', ''auth-bypass-pattern'', ''hardcoded-admin'',
     ''data-exposure'', ''sql-data-exposure'']"

text \<open>A file with the password line and, as its second line, the API key line.\<close>

definition keyFile :: string where
  "keyFile = passwordLine @ [lf] @ apiKeyLine"

text \<open>Three discovered calls: a POST and a GET of a declared path, and a GET of a new one.\<close>

definition usersCall :: string where
  "usersCall = ''src/Profile.js:axios.get('' @ [bq] @ ''/api/Users/me'' @ [bq]"

section \<open>Evaluation rules\<close>

lemma mt_numeral:
  "mt i (AtLeast (numeral k) r) s =
     concat (map (\<lambda>t. mt i (AtLeast (pred_numeral k) r) t) (mt i r s))"
  by (simp add: numeral_eq_Suc)

lemmas char_defs = dq_def sq_def bs_def lf_def bq_def

lemmas ctx_defs = baseContext_def completeContext_def userModel_def productsEndpoint_def
  noRules_def authOf_def memoryWith_def unsanitizedContext_def productionConfig_def noSchema_def

lemmas facet_defs = hasEndpoints_def authConfigured_def httpsEnforced_def hasModels_def
  hasComponents_def platformSet_def declaredEndpoints_def truthyBool_def truthyString_def

lemmas regex_defs = oneOf_def noneOf_def ws_def alnum_def sep_def assign_def quote_def
  sqlVerb_def sameChar_def inClass_def toUpperChar_def toLowerChar_def upperAlphabet_def
  lowerAlphabet_def whiteSpace_def mt_numeral

section \<open>C1: one issue for every matching line\<close>

text \<open>
  C1 says that \<^verbatim>\<open>scanFile\<close> reports every line that matches a declared pattern, however
  many earlier lines matched. The scanner compiles the pattern with the flags \<^verbatim>\<open>gi\<close> and
  calls \<^verbatim>\<open>test\<close> on the same object for every line, so a match leaves \<^verbatim>\<open>lastIndex\<close>
  behind and the next line is searched from there. On a file of two equal lines
  \<^verbatim>\<open>const password = "hunter2";\<close>, scanned with the default patterns, the only issue is the
  one for line 1, although line 2 is the same text and a fresh \<^verbatim>\<open>RegExp\<close> matches it.
\<close>

theorem C1_second_matching_line_skipped:
  "scanFile (oneFileHost ''src/config.js'' (passwordLine @ [lf] @ passwordLine))
       (contextWithPatterns getDefaultPatterns) ''src/config.js''
     = [\<lparr>iss_file = ''src/config.js'', iss_line = Some 1, iss_rule = ''hardcoded-password'',
          iss_severity = Error,
          iss_message = ''Hardcoded password detected. Use secure configuration management.'',
          iss_suggestion = Advice ''Use environment variables and bcrypt for password hashing''\<rparr>]
   \<and> split (passwordLine @ [lf] @ passwordLine) lf = [passwordLine, passwordLine]
   \<and> repositoryRegExp src_password = Some re_password
   \<and> fst (test (newRegExp re_password True True) passwordLine)"
  by code_simp

section \<open>C3: the bounded, newest-first history of ContextMemory\<close>

lemma take_append_take: "take n (xs @ take n ys) = take n (xs @ ys)"
  by (simp add: min_def)

lemma recordInteraction_step:
  assumes "0 \<le> maxInteractions this"
  shows "memoryOf (context (recordInteraction this a ci r md t1 t2)) =
           (memoryOf (context this))
             \<lparr>aiInteractions := Some (take (nat (maxInteractions this))
                 (\<lparr>ai_timestamp = t1, ai_action = a, ai_context = ci, ai_result = r,
                   ai_metadata = md\<rparr> # interactionsOf (memoryOf (context this)))),
              lastUpdated := Some t2\<rparr>"
    and "maxInteractions (recordInteraction this a ci r md t1 t2) = maxInteractions this"
  using assms by (auto simp: recordInteraction_def Let_def memoryOf_def slice_to_def)

lemma recordInteractions_list:
  assumes "0 \<le> maxInteractions this" and "calls \<noteq> []"
  shows "aiInteractions (memoryOf (context (recordInteractions this calls))) =
           Some (take (nat (maxInteractions this))
                  (rev (map interactionOf calls) @ interactionsOf (memoryOf (context this))))"
  using assms
proof (induction this calls rule: recordInteractions.induct)
  case (1 this)
  then show ?case by simp
next
  case (2 this action contextInfo result metadata t1 t2 calls)
  let ?this1 = "recordInteraction this action contextInfo result metadata t1 t2"
  have cap: "maxInteractions ?this1 = maxInteractions this"
    by (simp add: recordInteraction_step(2) "2.prems"(1))
  have m1: "interactionsOf (memoryOf (context ?this1)) =
      take (nat (maxInteractions this))
        (interactionOf (action, contextInfo, result, metadata, t1, t2)
           # interactionsOf (memoryOf (context this)))"
    by (simp add: recordInteraction_step(1) "2.prems"(1) interactionsOf_def interactionOf_def)
  show ?case
  proof (cases calls)
    case Nil
    then show ?thesis
      by (simp add: recordInteraction_step(1) "2.prems"(1) interactionOf_def)
  next
    case (Cons c cs)
    then have "aiInteractions (memoryOf (context (recordInteractions ?this1 calls))) =
        Some (take (nat (maxInteractions ?this1))
               (rev (map interactionOf calls) @ interactionsOf (memoryOf (context ?this1))))"
      using "2.IH" "2.prems"(1) cap by simp
    then show ?thesis
      by (simp add: cap m1 take_append_take)
  qed
qed

lemma recordInteractions_lastUpdated:
  "lastUpdated (memoryOf (context (recordInteractions this (calls @ [(a, ci, r, md, t1, t2)]))))
     = Some t2"
  by (induction this calls rule: recordInteractions.induct)
     (simp_all add: recordInteraction_def Let_def memoryOf_def)

text \<open>
  C3, amended: for a cap of at least 1, after every call of a sequence of
  \<^verbatim>\<open>recordInteraction\<close> calls (the last one with the arguments \<open>a, ci, r, md\<close> and the clock
  readings \<open>t1, t2\<close>) the list starts with the interaction just recorded; it is the
  first \<open>cap\<close> entries of the interactions in reverse order of recording followed by the
  entries that were there before, so that what is dropped is the tail, the oldest; its
  length is at most the cap; and \<^verbatim>\<open>lastUpdated\<close> is the second clock reading of the call.
\<close>

theorem C3_bounded_history:
  assumes "1 \<le> maxInteractions this"
  shows "\<exists>rest.
      aiInteractions (memoryOf (context (recordInteractions this (calls @ [(a, ci, r, md, t1, t2)]))))
        = Some (interactionOf (a, ci, r, md, t1, t2) # rest)
    \<and> interactionOf (a, ci, r, md, t1, t2) # rest
        = take (nat (maxInteractions this))
            (rev (map interactionOf (calls @ [(a, ci, r, md, t1, t2)]))
               @ interactionsOf (memoryOf (context this)))
    \<and> int (length (interactionOf (a, ci, r, md, t1, t2) # rest)) \<le> maxInteractions this
    \<and> lastUpdated (memoryOf (context (recordInteractions this (calls @ [(a, ci, r, md, t1, t2)]))))
        = Some t2"
proof -
  let ?c = "(a, ci, r, md, t1, t2)"
  let ?all = "rev (map interactionOf (calls @ [?c])) @ interactionsOf (memoryOf (context this))"
  have l: "aiInteractions (memoryOf (context (recordInteractions this (calls @ [?c]))))
      = Some (take (nat (maxInteractions this)) ?all)"
    using assms by (intro recordInteractions_list) auto
  obtain n where n: "nat (maxInteractions this) = Suc n"
    using assms by (cases "nat (maxInteractions this)") auto
  have t: "take (nat (maxInteractions this)) ?all
      = interactionOf ?c
          # take n (rev (map interactionOf calls) @ interactionsOf (memoryOf (context this)))"
    by (simp add: n)
  have len: "int (length (take (nat (maxInteractions this)) ?all)) \<le> maxInteractions this"
    using assms by simp
  show ?thesis
    using l t len recordInteractions_lastUpdated[of this calls a ci r md t1 t2]
    by (intro exI[of _ "take n (rev (map interactionOf calls)
                                 @ interactionsOf (memoryOf (context this)))"])
       (simp only: simp_thms)
qed

text \<open>With cap 2, after three calls the list holds the third and the second interaction.\<close>

theorem C3_bounded_history_witness:
  "1 \<le> maxInteractions (memoryWith baseContext 2)
   \<and> aiInteractions (memoryOf (context
        (recordInteractions (memoryWith baseContext 2) ([call1, call2] @ [call3]))))
       = Some [interactionOf call3, interactionOf call2]
   \<and> lastUpdated (memoryOf (context
        (recordInteractions (memoryWith baseContext 2) ([call1, call2] @ [call3]))))
       = Some ''2025-06-26T05:22:30.001Z''"
proof -
  have h: "1 \<le> maxInteractions (memoryWith baseContext 2)"
    by (simp add: memoryWith_def)
  have v: "aiInteractions (memoryOf (context
        (recordInteractions (memoryWith baseContext 2) ([call1, call2] @ [call3]))))
       = Some [interactionOf call3, interactionOf call2]"
    by (simp add: call1_def call2_def call3_def memoryWith_def recordInteraction_def Let_def
          slice_to_def memoryOf_def interactionsOf_def baseContext_def emptyMemory_def
          interactionOf_def)
  from C3_bounded_history[OF h, of "[call1, call2]" "''database-model''" "''User''" "''added''"
      None "''2025-06-26T05:22:30.000Z''" "''2025-06-26T05:22:30.001Z''"]
  have "lastUpdated (memoryOf (context
        (recordInteractions (memoryWith baseContext 2) ([call1, call2] @ [call3]))))
       = Some ''2025-06-26T05:22:30.001Z''"
    unfolding call3_def by (elim exE conjE)
  with h v show ?thesis by simp
qed

text \<open>
  C3 as stated fails for a cap below 1: with cap 0 the list is empty after a call, so its
  first element is not the interaction just recorded; with cap \<open>-1\<close> the list is empty as
  well, and its length 0 is above the cap.
\<close>

theorem C3_cap_counterexample:
  "aiInteractions (memoryOf (context (recordInteractions (memoryWith baseContext 0) [call1])))
     = Some []
   \<and> aiInteractions (memoryOf (context (recordInteractions (memoryWith baseContext (- 1)) [call1])))
     = Some []"
  by (simp add: call1_def memoryWith_def recordInteraction_def Let_def slice_to_def memoryOf_def
        interactionsOf_def baseContext_def emptyMemory_def)

section \<open>C5: validateContext returns a result\<close>

lemma checkEndpointAuth_keeps:
  "v_context (checkEndpointAuth st) = v_context st \<and> v_errors (checkEndpointAuth st) = v_errors st"
  by (simp add: checkEndpointAuth_def split: option.splits)


lemma checkSensitiveData_total:
  assumes "security (v_context st) = Some sec"
  shows "\<exists>st'. checkSensitiveData st = Inr st' \<and> v_context st' = v_context st
           \<and> v_warnings st' = v_warnings st"
  using assms by (simp add: checkSensitiveData_def securityRule_def split: option.splits)

lemma checkProductionHttps_total:
  assumes "security (v_context st) = Some sec"
  shows "\<exists>st'. checkProductionHttps st = Inr st' \<and> v_context st' = v_context st
           \<and> v_warnings st' = v_warnings st"
  using assms by (simp add: checkProductionHttps_def securityRule_def)

text \<open>
  For a context that has its \<^verbatim>\<open>security\<close> section, and whose models and fields are values
  of the declared types (a model has its \<^verbatim>\<open>fields\<close>, a field its \<^verbatim>\<open>name\<close>), the validator
  returns, for every schema: the result has \<^verbatim>\<open>valid\<close> true exactly when \<^verbatim>\<open>errors\<close> is empty,
  and the context is left as it was.
\<close>

lemma validateContext_returns:
  assumes "security ctx \<noteq> None"
  shows "\<exists>res. validateContext this ctx = Inr (res, ctx) \<and> valid res = (errors res = [])"
proof -
  from assms obtain sec where sec: "security ctx = Some sec" by auto
  let ?st0 = "\<lparr>v_context = ctx, v_errors = schemaErrors this ctx, v_warnings = []\<rparr>"
  have c1: "v_context (checkEndpointAuth ?st0) = ctx"
    using checkEndpointAuth_keeps[of ?st0] by simp
  obtain st1 where st1: "checkSensitiveData (checkEndpointAuth ?st0) = Inr st1" "v_context st1 = ctx"
    using checkSensitiveData_total[of "checkEndpointAuth ?st0" sec] sec c1 by auto
  obtain st2 where st2: "checkProductionHttps st1 = Inr st2" "v_context st2 = ctx"
    using checkProductionHttps_total[of st1 sec] sec st1(2) by auto
  have "validateContext this ctx =
      Inr (\<lparr>valid = (length (v_errors st2) = 0), errors = v_errors st2,
            warnings = v_warnings st2\<rparr>, ctx)"
    by (simp add: validateContext_def validateBusinessLogic_def st1 st2)
  then show ?thesis by simp
qed

text \<open>
  C5 says that \<^verbatim>\<open>validateContext\<close> never throws, for every context, those without their
  \<^verbatim>\<open>security\<close> section included. The two business rules read \<^verbatim>\<open>context.security.rules\<close>
  without a guard. For every context without \<^verbatim>\<open>security\<close> that has a database field with a
  sensitive name, or that declares a production environment, and for every schema,
  \<^verbatim>\<open>validateContext\<close> throws a \<^verbatim>\<open>TypeError\<close>: no result is returned, although a missing
  \<^verbatim>\<open>security\<close> section is what the schema of the package makes the validator report.
\<close>

theorem C5_missing_security_throws:
  assumes "security ctx = None"
    and "storesSensitiveData ctx \<or> productionDeployment ctx"
  shows "validateContext this ctx = Inl TypeError"
proof -
  define st1 where
    "st1 = checkEndpointAuth \<lparr>v_context = ctx, v_errors = schemaErrors this ctx, v_warnings = []\<rparr>"
  have c: "v_context st1 = ctx"
    using checkEndpointAuth_keeps[of "\<lparr>v_context = ctx, v_errors = schemaErrors this ctx, v_warnings = []\<rparr>"]
    by (simp add: st1_def)
  have v: "validateContext this ctx =
      (case (case checkSensitiveData st1 of Inl e \<Rightarrow> Inl e | Inr st' \<Rightarrow> checkProductionHttps st') of
         Inl e \<Rightarrow> Inl e
       | Inr st \<Rightarrow>
           Inr (\<lparr>valid = (length (v_errors st) = 0), errors = v_errors st,
                 warnings = v_warnings st\<rparr>, v_context st))"
    by (simp add: validateContext_def validateBusinessLogic_def st1_def)
  show ?thesis
  proof (cases "storesSensitiveData ctx")
    case True
    then obtain db ms where d: "database ctx = Some db" "models db = Some ms" "hasSensitiveData ms"
      by (auto simp: storesSensitiveData_def split: option.splits)
    have "checkSensitiveData st1 = Inl TypeError"
      by (simp add: checkSensitiveData_def securityRule_def c d assms(1))
    then show ?thesis by (simp add: v)
  next
    case False
    then have p: "productionDeployment ctx"
      using assms(2) by simp
    have "checkSensitiveData st1 = Inr st1"
      using False
      by (auto simp: checkSensitiveData_def storesSensitiveData_def c split: option.splits)
    moreover have "checkProductionHttps st1 = Inl TypeError"
      using p c assms(1) by (simp add: checkProductionHttps_def securityRule_def)
    ultimately show ?thesis by (simp add: v)
  qed
qed

text \<open>
  The context without \<^verbatim>\<open>security\<close> whose model \<^verbatim>\<open>User\<close> has the field \<^verbatim>\<open>password\<close>: the
  validator throws, without a schema and with the schema that requires \<^verbatim>\<open>security\<close>.
\<close>

theorem C5_missing_security_throws_witness:
  "security withoutSecurity = None
   \<and> storesSensitiveData withoutSecurity
   \<and> validateContext noSchema withoutSecurity = Inl TypeError
   \<and> validateContext requiresSecurity withoutSecurity = Inl TypeError"
proof -
  have h1: "security withoutSecurity = None"
    by (simp add: withoutSecurity_def)
  have h2: "storesSensitiveData withoutSecurity"
    by code_simp
  from C5_missing_security_throws[OF h1, of noSchema]
       C5_missing_security_throws[OF h1, of requiresSecurity] h1 h2
  show ?thesis by blast
qed

section \<open>C6: sensitive fields without input sanitization\<close>








section \<open>C7: the maturity score\<close>

lemma maturityScore_weighted: "maturityScore this = weightedScore (context this)"
  by (simp add: maturityScore_def weightedScore_def facets_def Let_def)

text \<open>
  C7: the score that \<^verbatim>\<open>assessProjectMaturity\<close> computes is the sum of the weights of the six
  facets that hold (endpoints 20, authentication other than none 20, HTTPS 15, models 15,
  components 15, platform 15); the label is \<^verbatim>\<open>mature\<close> from 80, \<^verbatim>\<open>developing\<close> from 50,
  \<^verbatim>\<open>early\<close> from 25 and \<^verbatim>\<open>initial\<close> below; and when every facet that holds for one
  context holds for another, the score of the other is not lower.
\<close>

theorem C7_maturity:
  "maturityScore this = weightedScore (context this)
   \<and> assessProjectMaturity this =
       (if 80 \<le> weightedScore (context this) then ''mature''
        else if 50 \<le> weightedScore (context this) then ''developing''
        else if 25 \<le> weightedScore (context this) then ''early''
        else ''initial'')
   \<and> ((\<forall>(facet, weight) \<in> set facets. facet (context this) \<longrightarrow> facet (context that))
        \<longrightarrow> maturityScore this \<le> maturityScore that)"
proof -
  have mono: "maturityScore this \<le> maturityScore that"
    if "\<forall>(facet, weight) \<in> set facets. facet (context this) \<longrightarrow> facet (context that)"
    using that by (simp add: maturityScore_weighted weightedScore_def facets_def)
  show ?thesis
    using mono by (simp add: maturityScore_weighted assessProjectMaturity_def Let_def)
qed

text \<open>Setting \<^verbatim>\<open>authentication.type\<close> from \<^verbatim>\<open>none\<close> to \<^verbatim>\<open>jwt\<close> raises the score from 0 to 20.\<close>

theorem C7_maturity_witness:
  "maturityScore (memoryWith (baseContext\<lparr>authentication := Some (authOf ''none'')\<rparr>) 100) = 0
   \<and> maturityScore (memoryWith (baseContext\<lparr>authentication := Some (authOf ''jwt'')\<rparr>) 100) = 20
   \<and> maturityScore (memoryWith (baseContext\<lparr>authentication := Some (authOf ''none'')\<rparr>) 100)
       \<le> maturityScore (memoryWith (baseContext\<lparr>authentication := Some (authOf ''jwt'')\<rparr>) 100)
   \<and> assessProjectMaturity (memoryWith completeContext 100) = ''mature''"
proof -
  let ?a = "memoryWith (baseContext\<lparr>authentication := Some (authOf ''none'')\<rparr>) 100"
  let ?b = "memoryWith (baseContext\<lparr>authentication := Some (authOf ''jwt'')\<rparr>) 100"
  have h: "\<forall>(facet, weight) \<in> set facets. facet (context ?a) \<longrightarrow> facet (context ?b)"
    by (simp add: facets_def facet_defs ctx_defs)
  have le: "maturityScore ?a \<le> maturityScore ?b"
    using C7_maturity[of ?a ?b] h by blast
  have a: "maturityScore ?a = 0"
    by (simp add: maturityScore_def Let_def facet_defs ctx_defs)
  have b: "maturityScore ?b = 20"
    by (simp add: maturityScore_def Let_def facet_defs ctx_defs)
  have c: "assessProjectMaturity (memoryWith completeContext 100) = ''mature''"
    by (simp add: assessProjectMaturity_def maturityScore_def Let_def facet_defs ctx_defs)
  from le a b c show ?thesis by simp
qed

section \<open>C9: the suggestions\<close>



















lemma sortsNumbers_stableSort: "sortsNumbers stableSort"
  by (simp add: sortsNumbers_def)



text \<open>
  An action named like a member of \<^verbatim>\<open>Object.prototype\<close>: after two security fixes and one
  interaction with the action \<^verbatim>\<open>constructor\<close>, the entry of \<^verbatim>\<open>constructor\<close> holds a string
  and comes first, the comparator returns \<^verbatim>\<open>NaN\<close> for the only pair, and the stable sort
  leaves the entries as they are. The top action has no suggestion, and on the complete
  context the list is empty although the security fix is the most frequent action.
\<close>

lemma member_name_on_top:
  "recordedActions (context memberOnTop) = [''constructor'', ''security-fix'', ''security-fix'']
   \<and> analyzedCommonActions stableSort (context memberOnTop)
       = [(''constructor'', MemberText ''constructor'' 1), (''security-fix'', Number 2)]
   \<and> generateSuggestions stableSort memberOnTop = []"
  by code_simp


section \<open>C10: the history kept by recordAiInteraction\<close>

lemma slice_from_last50: "slice_from xs (- 50) = drop (length xs - 50) xs"
proof -
  have "nat (int (length xs) + - 50) = length xs - 50" by linarith
  then show ?thesis by (simp add: slice_from_def)
qed

lemma keep50:
  "(if length xs > 50 then slice_from xs (- 50) else xs) = drop (length xs - 50) xs"
  by (simp add: slice_from_last50)

lemma recordAiInteraction_step:
  "memoryOf (recordAiInteraction ctx a ci r t) =
     (memoryOf ctx)\<lparr>aiInteractions := Some
        (drop (length (interactionsOf (memoryOf ctx) @ [aiInteractionOf (a, ci, r, t)]) - 50)
           (interactionsOf (memoryOf ctx) @ [aiInteractionOf (a, ci, r, t)]))\<rparr>"
  unfolding recordAiInteraction_def Let_def keep50
  by (simp add: memoryOf_def aiInteractionOf_def)

lemma keep50_append_aux:
  assumes A: "length A = k + 50"
  shows "drop (length (drop k A) + length M - 50) (drop k A @ M) = drop (k + length M) (A @ M)"
proof -
  have l: "length (drop k A) = 50" by (simp add: A)
  have "drop (length (drop k A) + length M - 50) (drop k A @ M) = drop (length M) (drop k A @ M)"
    by (simp only: l add_diff_cancel_left')
  also have "\<dots> = drop (length M) (drop k A) @ drop (length M - 50) M"
    by (simp only: drop_append l)
  also have "\<dots> = drop (k + length M) A @ drop (length M - 50) M"
    by (simp only: drop_drop add.commute)
  also have "length M - 50 = k + length M - length A"
    by (simp add: A)
  also have "drop (k + length M) A @ drop (k + length M - length A) M = drop (k + length M) (A @ M)"
    by (simp only: drop_append)
  finally show ?thesis .
qed

lemma keep50_append:
  "drop (length (drop (length A - 50) A) + length M - 50) (drop (length A - 50) A @ M)
     = drop (length A + length M - 50) (A @ M)"
proof (cases "length A \<le> 50")
  case True
  then show ?thesis by simp
next
  case False
  then have A: "length A = (length A - 50) + 50" by simp
  have e: "(length A - 50) + length M = length A + length M - 50"
    using False by simp
  show ?thesis
    using keep50_append_aux[OF A, of M] by (simp only: e)
qed

lemma recordAiInteractions_list:
  assumes "calls \<noteq> []"
  shows "aiInteractions (memoryOf (recordAiInteractions ctx calls)) =
           Some (drop (length (interactionsOf (memoryOf ctx) @ map aiInteractionOf calls) - 50)
                  (interactionsOf (memoryOf ctx) @ map aiInteractionOf calls))"
  using assms
proof (induction ctx calls rule: recordAiInteractions.induct)
  case (1 ctx)
  then show ?case by simp
next
  case (2 ctx action contextInfo result t calls)
  let ?ctx1 = "recordAiInteraction ctx action contextInfo result t"
  let ?A = "interactionsOf (memoryOf ctx) @ [aiInteractionOf (action, contextInfo, result, t)]"
  let ?M = "map aiInteractionOf calls"
  have m1: "interactionsOf (memoryOf ?ctx1) = drop (length ?A - 50) ?A"
    by (simp only: recordAiInteraction_step interactionsOf_def) simp
  have A: "?A @ ?M = interactionsOf (memoryOf ctx)
      @ map aiInteractionOf ((action, contextInfo, result, t) # calls)"
    by simp
  show ?case
  proof (cases calls)
    case Nil
    have "aiInteractions (memoryOf ?ctx1) = Some (drop (length ?A - 50) ?A)"
      by (simp only: recordAiInteraction_step) simp
    then show ?thesis using Nil by simp
  next
    case (Cons c cs)
    then have "aiInteractions (memoryOf (recordAiInteractions ?ctx1 calls)) =
        Some (drop (length (interactionsOf (memoryOf ?ctx1) @ ?M) - 50)
               (interactionsOf (memoryOf ?ctx1) @ ?M))"
      using "2.IH" by simp
    also have "\<dots> = Some (drop (length (drop (length ?A - 50) ?A) + length ?M - 50)
               (drop (length ?A - 50) ?A @ ?M))"
      by (simp only: m1 length_append)
    also have "\<dots> = Some (drop (length ?A + length ?M - 50) (?A @ ?M))"
      by (simp only: keep50_append)
    also have "\<dots> = Some (drop (length (?A @ ?M) - 50) (?A @ ?M))"
      by (simp only: length_append)
    finally show ?thesis
      by (simp only: A recordAiInteractions.simps)
  qed
qed

lemma recordAiInteractions_lastUpdated:
  "lastUpdated (memoryOf (recordAiInteractions ctx calls)) = lastUpdated (memoryOf ctx)"
  by (induction ctx calls rule: recordAiInteractions.induct)
     (simp_all add: recordAiInteraction_step)

text \<open>
  C10: after every call of a sequence of \<^verbatim>\<open>recordAiInteraction\<close> calls (the last one with
  the arguments \<open>c\<close>), the list is the last 50 entries of the entries that were there
  before followed by the interactions in the order of recording: the new interaction is the
  last element, what is dropped is the front, the length is at most 50, and
  \<^verbatim>\<open>lastUpdated\<close> is what it was before the calls (absent when it was absent).
\<close>

theorem C10_append_bounded:
  "aiInteractions (memoryOf (recordAiInteractions ctx (calls @ [c]))) =
      Some (drop (length (interactionsOf (memoryOf ctx) @ map aiInteractionOf (calls @ [c])) - 50)
             (interactionsOf (memoryOf ctx) @ map aiInteractionOf (calls @ [c])))
   \<and> (\<exists>front.
         drop (length (interactionsOf (memoryOf ctx) @ map aiInteractionOf (calls @ [c])) - 50)
           (interactionsOf (memoryOf ctx) @ map aiInteractionOf (calls @ [c]))
         = front @ [aiInteractionOf c])
   \<and> length (drop (length (interactionsOf (memoryOf ctx) @ map aiInteractionOf (calls @ [c])) - 50)
             (interactionsOf (memoryOf ctx) @ map aiInteractionOf (calls @ [c]))) \<le> 50
   \<and> lastUpdated (memoryOf (recordAiInteractions ctx (calls @ [c]))) = lastUpdated (memoryOf ctx)"
proof -
  let ?all = "interactionsOf (memoryOf ctx) @ map aiInteractionOf (calls @ [c])"
  have l: "aiInteractions (memoryOf (recordAiInteractions ctx (calls @ [c]))) =
      Some (drop (length ?all - 50) ?all)"
    by (intro recordAiInteractions_list) simp
  have f: "drop (length ?all - 50) ?all
      = drop (length ?all - 50) (interactionsOf (memoryOf ctx) @ map aiInteractionOf calls)
          @ [aiInteractionOf c]"
    by simp
  have n: "length (drop (length ?all - 50) ?all) \<le> 50"
    by simp
  show ?thesis
    using l f n recordAiInteractions_lastUpdated[of ctx "calls @ [c]"] by blast
qed

section \<open>C2: continuity in both directions\<close>

lemma split_no_sep: "c \<notin> set s \<Longrightarrow> split s c = [s]"
  by (induction s) auto

lemma split_append: "c \<notin> set a \<Longrightarrow> split (a @ c # b) c = a # split b c"
  by (induction a) auto

lemma parse_fetchProducts: "parseApiCall fetchProducts = (''GET'', ''/api/products'')"
  by code_simp

lemma showNat_1: "showNat (Suc 0) = ''1''"
  by (subst showNat.simps) simp

lemma located_fetchProducts:
  assumes "CHR '':'' \<notin> set file"
  shows "parseApiCallWithLocation (file @ '':'' @ fetchProducts)
           = Inr (''GET'', ''/api/products'', file, 1)"
proof -
  have n: "CHR '':'' \<notin> set fetchProducts"
    by (simp add: fetchProducts_def sq_def)
  have "split (file @ CHR '':'' # fetchProducts) CHR '':'' = [file, fetchProducts]"
    using assms n by (simp add: split_append split_no_sep)
  then show ?thesis
    by (simp add: parseApiCallWithLocation_def parse_fetchProducts)
qed

lemma component_none:
  assumes "findComponentDefinitions d = Inr cd" and "findComponentUsages d = Inr cu"
  shows "\<exists>issues. checkComponentContinuity d ctx = Inr issues
           \<and> filter (\<lambda>i. ci_type i = ApiMismatch) issues = []"
  using assms by (simp add: checkComponentContinuity_def filter_empty_conv split_beta)

lemma route_none:
  assumes "findRouteDefinitions d = Inr rd" and "findRouteUsages d = Inr ru"
  shows "\<exists>issues. checkRouteContinuity d ctx = Inr issues
           \<and> filter (\<lambda>i. ci_type i = ApiMismatch) issues = []"
  using assms by (simp add: checkRouteContinuity_def filter_empty_conv split_beta)

lemma auth_none:
  assumes "findAuthenticationCalls d = Inr ac"
  shows "\<exists>issues. checkAuthenticationContinuity d ctx = Inr issues
           \<and> filter (\<lambda>i. ci_type i = ApiMismatch) issues = []"
  using assms by (simp add: checkAuthenticationContinuity_def filter_empty_conv split_beta Let_def)

lemma checkContinuity_api:
  assumes "checkApiContinuity d ctx = Inr apiIssues"
    and "\<forall>i \<in> set apiIssues. ci_type i = ApiMismatch"
    and "findComponentDefinitions d = Inr cd" and "findComponentUsages d = Inr cu"
    and "findRouteDefinitions d = Inr rd" and "findRouteUsages d = Inr ru"
    and "findAuthenticationCalls d = Inr ac"
  shows "\<exists>issues. checkContinuity d ctx = Inr issues
           \<and> filter (\<lambda>i. ci_type i = ApiMismatch) issues = apiIssues"
proof -
  obtain c where c: "checkComponentContinuity d ctx = Inr c" "filter (\<lambda>i. ci_type i = ApiMismatch) c = []"
    using component_none[OF assms(3,4)] by blast
  obtain r where r: "checkRouteContinuity d ctx = Inr r" "filter (\<lambda>i. ci_type i = ApiMismatch) r = []"
    using route_none[OF assms(5,6)] by blast
  obtain a where a: "checkAuthenticationContinuity d ctx = Inr a" "filter (\<lambda>i. ci_type i = ApiMismatch) a = []"
    using auth_none[OF assms(7)] by blast
  have "filter (\<lambda>i. ci_type i = ApiMismatch) apiIssues = apiIssues"
    using assms(2) by (simp add: filter_id_conv)
  then show ?thesis
    by (simp add: checkContinuity_def assms(1) c r a)
qed


lemma api_unused:
  assumes "declaredEndpoints ctx = [e]" and "findFrontendApiCalls d = Inr []"
  shows "checkApiContinuity d ctx =
           Inr [\<lparr>ci_type = ApiMismatch, ci_frontend = ''No frontend usage found'',
                 ci_backend = ep_method e @ '' '' @ ep_path e,
                 ci_message = ''Backend endpoint '' @ ep_method e @ '' '' @ ep_path e
                    @ '' is not used by any frontend code'',
                 ci_suggestion = ''Remove unused endpoint or add frontend usage if needed''\<rparr>]"
  using assms by (simp add: checkApiContinuity_def Let_def)

lemma api_unmatched:
  assumes "declaredEndpoints ctx = []" and "CHR '':'' \<notin> set file"
    and "findFrontendApiCalls d = Inr [file @ '':'' @ fetchProducts]"
  shows "checkApiContinuity d ctx =
           Inr [\<lparr>ci_type = ApiMismatch,
                 ci_frontend = file @ '':1 - GET /api/products'',
                 ci_backend = ''No matching endpoint found'',
                 ci_message = ''Frontend calls GET /api/products but no matching backend endpoint exists'',
                 ci_suggestion = ''Add GET /api/products endpoint to your backend or update the frontend call''\<rparr>]"
  using assms(1,3) located_fetchProducts[OF assms(2)]
  by (simp add: checkApiContinuity_def Let_def showNat_1)

lemma split_nonempty: "split s c \<noteq> []"
  by (cases s) (simp_all split: list.splits)

lemma split_two: "\<exists>x y zs. split (a @ c # b) c = x # y # zs"
proof (induction a)
  case Nil
  obtain y zs where "split b c = y # zs"
    using split_nonempty[of b c] by (cases "split b c") auto
  then show ?case by simp
next
  case (Cons x xs)
  then obtain w y zs where "split (xs @ c # b) c = w # y # zs" by blast
  then show ?case by simp
qed

lemma located_any:
  "\<exists>m p f. parseApiCallWithLocation (file @ '':'' @ rest) = Inr (m, p, f, 1)"
proof -
  obtain x y zs where s: "split (file @ CHR '':'' # rest) CHR '':'' = x # y # zs"
    using split_two by blast
  obtain m p where "parseApiCall y = (m, p)" by (cases "parseApiCall y")
  with s show ?thesis
    by (simp add: parseApiCallWithLocation_def)
qed

lemma api_unmatched_any:
  assumes "declaredEndpoints ctx = []"
    and "findFrontendApiCalls d = Inr [file @ '':'' @ fetchProducts]"
  shows "\<exists>x. checkApiContinuity d ctx = Inr [x] \<and> ci_type x = ApiMismatch
           \<and> ci_backend x = ''No matching endpoint found''
           \<and> (CHR '':'' \<notin> set file \<longrightarrow> ci_frontend x = file @ '':1 - GET /api/products'')"
proof (cases "CHR '':'' \<in> set file")
  case False
  then show ?thesis
    using api_unmatched[OF assms(1) _ assms(2)] by simp
next
  case True
  obtain m p f where l: "parseApiCallWithLocation (file @ '':'' @ fetchProducts) = Inr (m, p, f, 1)"
    using located_any by blast
  show ?thesis
    using True assms l by (simp add: checkApiContinuity_def Let_def)
qed

text \<open>
  The two scenarios of the specification, when the discovery of components, routes and
  authentication calls succeeds: (1) for a context whose only declared endpoint is
  \<^verbatim>\<open>GET /api/products\<close> and a project with no discovered frontend call,
  \<^verbatim>\<open>checkContinuity\<close> returns, and its issues of type \<^verbatim>\<open>api-mismatch\<close> are exactly one,
  whose \<^verbatim>\<open>backend\<close> field is \<^verbatim>\<open>GET /api/products\<close>; (2) for a context without declared
  endpoints and a project whose only discovered call is \<^verbatim>\<open>fetch('/api/products')\<close> in a file
  \<open>file\<close>, it returns, and its issues of type \<^verbatim>\<open>api-mismatch\<close> are exactly one, which has
  no backend; its \<^verbatim>\<open>frontend\<close> field is the file, the line 1 and \<^verbatim>\<open>GET /api/products\<close>, for
  a file path without a colon (the call string is split at its colons).
\<close>

lemma continuity_scenarios:
  assumes "findComponentDefinitions d = Inr cd" and "findComponentUsages d = Inr cu"
    and "findRouteDefinitions d = Inr rd" and "findRouteUsages d = Inr ru"
    and "findAuthenticationCalls d = Inr ac"
  shows "(declaredEndpoints ctx = [e] \<and> ep_method e = ''GET'' \<and> ep_path e = ''/api/products''
            \<and> findFrontendApiCalls d = Inr []
          \<longrightarrow> (\<exists>issues x. checkContinuity d ctx = Inr issues
                 \<and> filter (\<lambda>i. ci_type i = ApiMismatch) issues = [x]
                 \<and> ci_backend x = ''GET /api/products''
                 \<and> ci_frontend x = ''No frontend usage found''))
       \<and> (declaredEndpoints ctx = []
            \<and> findFrontendApiCalls d = Inr [file @ '':'' @ fetchProducts]
          \<longrightarrow> (\<exists>issues x. checkContinuity d ctx = Inr issues
                 \<and> filter (\<lambda>i. ci_type i = ApiMismatch) issues = [x]
                 \<and> ci_backend x = ''No matching endpoint found''
                 \<and> (CHR '':'' \<notin> set file
                      \<longrightarrow> ci_frontend x = file @ '':1 - GET /api/products'')))"
proof (intro conjI impI)
  assume a: "declaredEndpoints ctx = [e] \<and> ep_method e = ''GET'' \<and> ep_path e = ''/api/products''
            \<and> findFrontendApiCalls d = Inr []"
  let ?x = "\<lparr>ci_type = ApiMismatch, ci_frontend = ''No frontend usage found'',
             ci_backend = ep_method e @ '' '' @ ep_path e,
             ci_message = ''Backend endpoint '' @ ep_method e @ '' '' @ ep_path e
                @ '' is not used by any frontend code'',
             ci_suggestion = ''Remove unused endpoint or add frontend usage if needed''\<rparr>"
  have "checkApiContinuity d ctx = Inr [?x]"
    using a api_unused by blast
  then obtain issues where "checkContinuity d ctx = Inr issues"
      and "filter (\<lambda>i. ci_type i = ApiMismatch) issues = [?x]"
    using checkContinuity_api[OF _ _ assms, of ctx "[?x]"] by auto
  moreover have "ci_backend ?x = ''GET /api/products''"
      "ci_frontend ?x = ''No frontend usage found''"
    using a by simp_all
  ultimately show "\<exists>issues x. checkContinuity d ctx = Inr issues
                 \<and> filter (\<lambda>i. ci_type i = ApiMismatch) issues = [x]
                 \<and> ci_backend x = ''GET /api/products''
                 \<and> ci_frontend x = ''No frontend usage found''"
    by blast
next
  assume a: "declaredEndpoints ctx = []
            \<and> findFrontendApiCalls d = Inr [file @ '':'' @ fetchProducts]"
  then obtain x where x: "checkApiContinuity d ctx = Inr [x]" "ci_type x = ApiMismatch"
      "ci_backend x = ''No matching endpoint found''"
      "CHR '':'' \<notin> set file \<longrightarrow> ci_frontend x = file @ '':1 - GET /api/products''"
    using api_unmatched_any[of ctx d "file"] by blast
  obtain issues where "checkContinuity d ctx = Inr issues"
      and "filter (\<lambda>i. ci_type i = ApiMismatch) issues = [x]"
    using checkContinuity_api[OF x(1) _ assms] x(2) by auto
  with x(3,4) show "\<exists>issues x. checkContinuity d ctx = Inr issues
                 \<and> filter (\<lambda>i. ci_type i = ApiMismatch) issues = [x]
                 \<and> ci_backend x = ''No matching endpoint found''
                 \<and> (CHR '':'' \<notin> set file
                      \<longrightarrow> ci_frontend x = file @ '':1 - GET /api/products'')"
    by blast
qed

text \<open>
  C2 says that \<^verbatim>\<open>checkContinuity\<close> reconciles calls and endpoints in both directions by
  exact match on method and path. The two loops of \<^verbatim>\<open>checkApiContinuity\<close> do not read a call
  in the same way: the first one parses the part after the file name
  (\<^verbatim>\<open>parseApiCallWithLocation\<close>), the second one parses the whole string \<^verbatim>\<open>file:match\<close>
  (\<^verbatim>\<open>parseApiCall\<close>), so that a verb after a dot in the file name becomes the method. For
  the declared endpoint \<^verbatim>\<open>GET /api/products\<close> and the one call \<^verbatim>\<open>fetch('/api/products')\<close>
  found in \<^verbatim>\<open>src/x.post.js\<close>, the first loop finds the endpoint for the call, method and
  path being equal, and reports nothing; the second loop reads the call as a POST and
  reports the endpoint as used by no frontend code. Call and endpoint match exactly, and
  an \<^verbatim>\<open>api-mismatch\<close> is reported.
\<close>

theorem C2_used_endpoint_reported_unused:
  "checkContinuity (discovered [''src/x.post.js:'' @ fetchProducts]) completeContext
     = Inr [\<lparr>ci_type = ApiMismatch, ci_frontend = ''No frontend usage found'',
             ci_backend = ''GET /api/products'',
             ci_message = ''Backend endpoint GET /api/products is not used by any frontend code'',
             ci_suggestion = ''Remove unused endpoint or add frontend usage if needed''\<rparr>]
   \<and> declaredEndpoints completeContext = [productsEndpoint]
   \<and> ep_method productsEndpoint = ''GET'' \<and> ep_path productsEndpoint = ''/api/products''
   \<and> parseApiCallWithLocation (''src/x.post.js:'' @ fetchProducts)
       = Inr (''GET'', ''/api/products'', ''src/x.post.js'', 1)
   \<and> parseApiCall (''src/x.post.js:'' @ fetchProducts) = (''POST'', ''/api/products'')
   \<and> unmatchedCalls [productsEndpoint] [''src/x.post.js:'' @ fetchProducts] [] = Inr []"
  by code_simp

section \<open>C8: the endpoints synthesized for frontend calls\<close>

lemma shouldRequireAuth_keywords:
  "shouldRequireAuth path = (\<exists>keyword \<in> set authKeywords. includesStr (toLowerCase path) keyword)"
  by (simp add: shouldRequireAuth_def authKeywords_def)

lemma missingLoop_map_filter:
  "missingLoop existingPaths calls acc =
     acc @ map synthesized
             (filter (\<lambda>call. snd (parseApiCall call) \<noteq> []
                              \<and> snd (parseApiCall call) \<notin> set existingPaths) calls)"
proof (induction calls arbitrary: acc)
  case Nil
  then show ?case by simp
next
  case (Cons call calls)
  obtain verb target where p: "parseApiCall call = (verb, target)"
    by (cases "parseApiCall call")
  show ?case
    by (simp add: Cons.IH p synthesized_def inferParameters_def shouldRequireAuth_keywords)
qed

text \<open>
  What the method computes, for every list of frontend calls: one endpoint, in order, for
  each call whose path (the first quoted run of the call string) is not empty and is not
  the path of any declared endpoint, whatever the methods of the call and of the endpoint.
  The endpoint has the method and the path parsed from the call string, the description
  \<^verbatim>\<open>Auto-generated endpoint for\<close> followed by the path, the parameters that
  \<^verbatim>\<open>inferParameters\<close> returns (none), and an authentication flag that is true exactly when
  the lower-cased path contains one of \<^verbatim>\<open>user\<close>, \<^verbatim>\<open>profile\<close>, \<^verbatim>\<open>dashboard\<close>, \<^verbatim>\<open>admin\<close>,
  \<^verbatim>\<open>account\<close>.
\<close>

lemma generateMissingEndpoints_by_path:
  "generateMissingEndpoints ctx calls = map synthesized (filter (pathUndeclared ctx) calls)"
proof -
  have "(\<lambda>call. snd (parseApiCall call) \<noteq> []
                \<and> snd (parseApiCall call) \<notin> set (map ep_path (declaredEndpoints ctx)))
      = pathUndeclared ctx"
    by (force simp: pathUndeclared_def fun_eq_iff)
  then show ?thesis
    by (simp add: generateMissingEndpoints_def missingLoop_map_filter)
qed

text \<open>
  C8 says that an endpoint is synthesized for each call that has no declared match, and a
  match of a call and an endpoint is one on method and path: that is how
  \<^verbatim>\<open>checkApiContinuity\<close> of the same class compares them. \<^verbatim>\<open>generateMissingEndpoints\<close>
  compares the paths only. For the declared endpoint \<^verbatim>\<open>GET /api/products\<close> and the call
  \<^verbatim>\<open>axios.post('/api/products')\<close> found in \<^verbatim>\<open>src/App.js\<close>, \<^verbatim>\<open>checkApiContinuity\<close> reports
  that no endpoint matches the call and asks for the endpoint \<^verbatim>\<open>POST /api/products\<close> to be
  added, and \<^verbatim>\<open>generateMissingEndpoints\<close> synthesizes nothing.
\<close>

theorem C8_unmatched_call_gets_no_endpoint:
  "generateMissingEndpoints completeContext [''src/App.js:'' @ postProducts] = []
   \<and> parseApiCall (''src/App.js:'' @ postProducts) = (''POST'', ''/api/products'')
   \<and> declaredEndpoints completeContext = [productsEndpoint]
   \<and> ep_method productsEndpoint = ''GET'' \<and> ep_path productsEndpoint = ''/api/products''
   \<and> checkApiContinuity (discovered [''src/App.js:'' @ postProducts]) completeContext
       = Inr [\<lparr>ci_type = ApiMismatch, ci_frontend = ''src/App.js:1 - POST /api/products'',
               ci_backend = ''No matching endpoint found'',
               ci_message = ''Frontend calls POST /api/products but no matching backend endpoint exists'',
               ci_suggestion = ''Add POST /api/products endpoint to your backend or update the frontend call''\<rparr>,
              \<lparr>ci_type = ApiMismatch, ci_frontend = ''No frontend usage found'',
               ci_backend = ''GET /api/products'',
               ci_message = ''Backend endpoint GET /api/products is not used by any frontend code'',
               ci_suggestion = ''Remove unused endpoint or add frontend usage if needed''\<rparr>]"
  by code_simp

text \<open>
  Of a POST and a GET of the declared path and a GET of \<^verbatim>\<open>/api/Users/me\<close>, only the last
  gets an endpoint, and it requires authentication.
\<close>

lemma missing_endpoints_of_three_calls:
  "generateMissingEndpoints completeContext
       [''src/App.js:'' @ postProducts, ''src/App.js:'' @ fetchProducts, usersCall]
     = [\<lparr>ep_path = ''/api/Users/me'', ep_method = ''GET'',
          ep_description = Some ''Auto-generated endpoint for /api/Users/me'',
          ep_parameters = Some [], ep_authentication = Some True\<rparr>]"
  by code_simp

section \<open>C4: the line with the API key\<close>

lemma search_None_pos: "search i r s p = None \<Longrightarrow> search i r s q = None"
  by (induction s arbitrary: p q) (auto split: list.splits)

lemma search_None_drop: "search i r s p = None \<Longrightarrow> search i r (drop k s) q = None"
proof (induction k arbitrary: s p)
  case 0
  then show ?case using search_None_pos by simp
next
  case (Suc k)
  show ?case
  proof (cases s)
    case Nil
    from Suc.prems Nil have "search i r [] q = None"
      using search_None_pos[of i r "[]" p q] by blast
    then show ?thesis using Nil by simp
  next
    case (Cons c cs)
    with Suc.prems have "search i r cs (Suc p) = None"
      by (auto split: list.splits)
    then show ?thesis using Suc.IH Cons by simp
  qed
qed

lemma test_fields:
  "source (snd (test re s)) = source re \<and> ignoreCase (snd (test re s)) = ignoreCase re
   \<and> global (snd (test re s)) = global re"
  by (simp add: test_def split: option.splits prod.splits)

lemma test_no_match:
  assumes "search (ignoreCase re) (source re) s 0 = None"
  shows "fst (test re s) = False"
  using assms search_None_drop[OF assms, of "lastIndex re" "lastIndex re"]
  by (simp add: test_def)

lemma forEachLine_issue:
  assumes "x \<in> set (forEachLine filePath p lines index re issues)"
  shows "x \<in> set issues
         \<or> (iss_rule x = pat_name p
            \<and> (\<exists>j < length lines. iss_line x = Some (index + j + 1)
                  \<and> search (ignoreCase re) (source re) (lines ! j) 0 \<noteq> None))"
  using assms
proof (induction lines arbitrary: index re issues)
  case Nil
  then show ?case by simp
next
  case (Cons line rest)
  obtain matched re' where t: "test re line = (matched, re')"
    by (cases "test re line")
  have f: "source re' = source re" "ignoreCase re' = ignoreCase re"
    using test_fields[of re line] t by simp_all
  let ?issues' = "if matched
             then issues @
               [\<lparr>iss_file = filePath, iss_line = Some (index + 1), iss_rule = pat_name p,
                 iss_severity = pat_severity p, iss_message = pat_message p,
                 iss_suggestion = getSuggestionForPattern (pat_name p) line\<rparr>]
             else issues"
  from Cons.prems t have "x \<in> set (forEachLine filePath p rest (Suc index) re' ?issues')"
    by simp
  from Cons.IH[OF this] consider
      (old) "x \<in> set ?issues'"
    | (later) "iss_rule x = pat_name p" "\<exists>j < length rest. iss_line x = Some (Suc index + j + 1)
                  \<and> search (ignoreCase re') (source re') (rest ! j) 0 \<noteq> None"
    by blast
  then show ?case
  proof cases
    case old
    show ?thesis
    proof (cases "x \<in> set issues")
      case True
      then show ?thesis by simp
    next
      case False
      with old have m: "matched" and x: "x = \<lparr>iss_file = filePath, iss_line = Some (index + 1), iss_rule = pat_name p,
                 iss_severity = pat_severity p, iss_message = pat_message p,
                 iss_suggestion = getSuggestionForPattern (pat_name p) line\<rparr>"
        by (auto split: if_splits)
      have "search (ignoreCase re) (source re) line 0 \<noteq> None"
      proof
        assume "search (ignoreCase re) (source re) line 0 = None"
        then have "fst (test re line) = False" by (rule test_no_match)
        with t m show False by simp
      qed
      then have "iss_rule x = pat_name p \<and> (\<exists>j < length (line # rest). iss_line x = Some (index + j + 1)
                  \<and> search (ignoreCase re) (source re) ((line # rest) ! j) 0 \<noteq> None)"
        using x by (intro conjI exI[of _ 0]) simp_all
      then show ?thesis by blast
    qed
  next
    case later
    then obtain j where j: "j < length rest" "iss_line x = Some (Suc index + j + 1)"
        "search (ignoreCase re') (source re') (rest ! j) 0 \<noteq> None"
      by blast
    have "\<exists>j' < length (line # rest). iss_line x = Some (index + j' + 1)
                  \<and> search (ignoreCase re) (source re) ((line # rest) ! j') 0 \<noteq> None"
      using j f by (intro exI[of _ "Suc j"]) simp
    with later(1) show ?thesis by blast
  qed
qed

lemma applyPatterns_issue:
  assumes "applyPatterns host filePath content lines ps issues = Inl res
           \<or> applyPatterns host filePath content lines ps issues = Inr res"
    and "x \<in> set res"
  shows "x \<in> set issues
         \<or> (\<exists>p \<in> set ps. \<exists>r. compileRegExp host (pat_pattern p) = Some r
               \<and> x \<in> set (forEachLine filePath p lines 0 (newRegExp r True True) []))"
  using assms
proof (induction ps arbitrary: issues)
  case Nil
  then show ?case by auto
next
  case (Cons p ps)
  show ?case
  proof (cases "compileRegExp host (pat_pattern p)")
    case None
    with Cons.prems show ?thesis
      by (auto simp: applySecurityPattern_def)
  next
    case (Some r)
    let ?pi = "forEachLine filePath p lines 0 (newRegExp r True True) []"
    from Cons.prems(1) Some
    have "applyPatterns host filePath content lines ps (issues @ ?pi) = Inl res
           \<or> applyPatterns host filePath content lines ps (issues @ ?pi) = Inr res"
      by (simp add: applySecurityPattern_def)
    from Cons.IH[OF this Cons.prems(2)] Some show ?thesis
      by auto
  qed
qed

lemma envLine_rule:
  assumes "x \<in> set (envLineIssues filePath il)"
  shows "iss_rule x = ''env-file-security''"
proof -
  obtain index line where il: "il = (index, line)" by (cases il)
  have x: "x \<in> set (envLineIssues filePath (index, line))"
    using assms il by simp
  show ?thesis
  proof (cases "split line CHR ''=''")
    case Nil
    with x have False
      unfolding envLineIssues_def
      by (simp only: prod.case list.case if_cancel list.set) simp
    then show ?thesis ..
  next
    case outer: (Cons key rest)
    show ?thesis
    proof (cases rest)
      case Nil
      with outer x have False
        unfolding envLineIssues_def
        by (simp only: prod.case list.case if_cancel list.set) simp
      then show ?thesis ..
    next
      case (Cons val others)
      with outer x show ?thesis
        unfolding envLineIssues_def
        by (simp only: prod.case list.case) (simp split: if_splits)
    qed
  qed
qed

lemma packageJson_rule:
  "x \<in> set (checkPackageJson host filePath content) \<Longrightarrow> iss_rule x = ''vulnerable-dependency''"
  by (auto simp: checkPackageJson_def split: option.splits)

lemma antiPatternLine_rule:
  "x \<in> set (antiPatternLineIssues filePath il) \<Longrightarrow>
     iss_rule x = ''eval-usage'' \<or> iss_rule x = ''document-write''
     \<or> iss_rule x = ''console-log-sensitive''"
  by (cases il) (auto simp: antiPatternLineIssues_def split: if_splits)

lemma authBypassLine_rule:
  "x \<in> set (authBypassLineIssues filePath il) \<Longrightarrow>
     iss_rule x = ''auth-bypass-pattern'' \<or> iss_rule x = ''hardcoded-admin''"
  by (cases il) (auto simp: authBypassLineIssues_def split: if_splits)

lemma dataExposureLine_rule:
  "x \<in> set (dataExposureLineIssues filePath il) \<Longrightarrow>
     iss_rule x = ''data-exposure'' \<or> iss_rule x = ''sql-data-exposure''"
  by (cases il) (auto simp: dataExposureLineIssues_def split: if_splits)

lemma builtIn_rules:
  assumes "x \<in> set (applyBuiltInSecurityChecks host filePath content lines)"
  shows "iss_rule x \<in> set builtInRules"
proof -
  from assms consider
      (env) "x \<in> set (checkEnvironmentFile filePath lines)"
    | (pkg) "x \<in> set (checkPackageJson host filePath content)"
    | (anti) "x \<in> set (checkCommonAntiPatterns filePath lines)"
    | (auth) "x \<in> set (checkAuthenticationBypass filePath lines)"
    | (expo) "x \<in> set (checkDataExposure filePath lines)"
    by (auto simp: applyBuiltInSecurityChecks_def split: if_splits)
  then show ?thesis
  proof cases
    case env
    then obtain il where "x \<in> set (envLineIssues filePath il)"
      by (auto simp: checkEnvironmentFile_def)
    then show ?thesis using envLine_rule by (simp add: builtInRules_def)
  next
    case pkg
    then show ?thesis using packageJson_rule by (simp add: builtInRules_def)
  next
    case anti
    then obtain il where "x \<in> set (antiPatternLineIssues filePath il)"
      by (auto simp: checkCommonAntiPatterns_def)
    then show ?thesis using antiPatternLine_rule[of x filePath il] by (auto simp: builtInRules_def)
  next
    case auth
    then obtain il where "x \<in> set (authBypassLineIssues filePath il)"
      by (auto simp: checkAuthenticationBypass_def)
    then show ?thesis using authBypassLine_rule[of x filePath il] by (auto simp: builtInRules_def)
  next
    case expo
    then obtain il where "x \<in> set (dataExposureLineIssues filePath il)"
      by (auto simp: checkDataExposure_def)
    then show ?thesis using dataExposureLine_rule[of x filePath il] by (auto simp: builtInRules_def)
  qed
qed

lemma api_key_line_no_match:
  "search True re_api_key apiKeyLine 0 = None \<and> search True re_api_key_m apiKeyLine 0 = None"
  by code_simp

lemma default_api_key_pattern:
  assumes "p \<in> set getDefaultPatterns \<or> p \<in> set getDefaultSecurityPatterns"
    and "pat_name p = ''hardcoded-api-key''"
  shows "pat_pattern p = src_api_key \<or> pat_pattern p = src_api_key_m"
  using assms by (auto simp: getDefaultPatterns_def getDefaultSecurityPatterns_def)

text \<open>
  C4 asks for a \<^verbatim>\<open>hardcoded-api-key\<close> issue on the line
  \<^verbatim>\<open>const apiKey = "sk_live_abcdef1234567890";\<close>. The rule is there to flag a quoted key
  assigned to \<^verbatim>\<open>apiKey\<close>, and its pattern asks for ten or more characters of
  \<^verbatim>\<open>[a-zA-Z0-9]\<close> between the quotes: the underscores of the key keep it from matching.
  With the default security patterns (those of \<^verbatim>\<open>SecurityValidator\<close> or those of
  \<^verbatim>\<open>ProjectContextManager\<close>), for every file that has this line as its line \<open>i + 1\<close>,
  \<^verbatim>\<open>scanFile\<close> produces no \<^verbatim>\<open>hardcoded-api-key\<close> issue for that line. With the key
  \<^verbatim>\<open>sklive1234567890\<close> in its place the issue is produced, with severity \<^verbatim>\<open>error\<close> and the
  line number 1.
\<close>

theorem C4_api_key_line:
  assumes "compileRegExp host src_api_key = Some re_api_key"
    and "compileRegExp host src_api_key_m = Some re_api_key_m"
    and "readFileSync host filePath = Some content"
    and "security ctx = Some sec"
    and "patterns sec = Some getDefaultPatterns \<or> patterns sec = Some getDefaultSecurityPatterns"
    and "i < length (split content lf)" and "split content lf ! i = apiKeyLine"
  shows "(\<forall>x \<in> set (scanFile host ctx filePath).
            \<not> (iss_rule x = ''hardcoded-api-key'' \<and> iss_line x = Some (i + 1)))
       \<and> scanFile (oneFileHost ''src/config.js'' plainKeyLine)
              (contextWithPatterns getDefaultPatterns) ''src/config.js''
           = [\<lparr>iss_file = ''src/config.js'', iss_line = Some 1, iss_rule = ''hardcoded-api-key'',
                iss_severity = Error,
                iss_message = ''Hardcoded API key detected. Use environment variables instead.'',
                iss_suggestion = Advice ''Move to environment variable: process.env.API_KEY''\<rparr>]"
proof (intro conjI ballI notI)
  show "scanFile (oneFileHost ''src/config.js'' plainKeyLine)
              (contextWithPatterns getDefaultPatterns) ''src/config.js''
           = [\<lparr>iss_file = ''src/config.js'', iss_line = Some 1, iss_rule = ''hardcoded-api-key'',
                iss_severity = Error,
                iss_message = ''Hardcoded API key detected. Use environment variables instead.'',
                iss_suggestion = Advice ''Move to environment variable: process.env.API_KEY''\<rparr>]"
    by code_simp
next
  fix x
  assume x: "x \<in> set (scanFile host ctx filePath)"
    and bad: "iss_rule x = ''hardcoded-api-key'' \<and> iss_line x = Some (i + 1)"
  define lines where "lines = split content lf"
  obtain ps where ps: "patterns sec = Some ps"
      "ps = getDefaultPatterns \<or> ps = getDefaultSecurityPatterns"
    using assms(5) by auto
  have nb: "iss_rule x \<notin> set builtInRules"
    using bad by (simp add: builtInRules_def)
  have "\<exists>res. (applyPatterns host filePath content lines ps [] = Inl res
              \<or> applyPatterns host filePath content lines ps [] = Inr res) \<and> x \<in> set res"
  proof (cases "applyPatterns host filePath content lines ps []")
    case (Inl res)
    with x show ?thesis
      by (simp add: scanFile_def assms(3,4) ps(1) lines_def[symmetric] Let_def)
  next
    case (Inr res)
    with x nb show ?thesis
      using builtIn_rules[of x host filePath content lines]
      by (auto simp: scanFile_def assms(3,4) ps(1) lines_def[symmetric] Let_def)
  qed
  then obtain p r where p: "p \<in> set ps" "compileRegExp host (pat_pattern p) = Some r"
      "x \<in> set (forEachLine filePath p lines 0 (newRegExp r True True) [])"
    using applyPatterns_issue[of host filePath content lines ps "[]" _ x] by auto
  from forEachLine_issue[OF p(3)] obtain j where j: "iss_rule x = pat_name p" "j < length lines"
      "iss_line x = Some (0 + j + 1)"
      "search (ignoreCase (newRegExp r True True)) (source (newRegExp r True True)) (lines ! j) 0 \<noteq> None"
    by auto
  have ji: "j = i" using j(3) bad by simp
  have "pat_pattern p = src_api_key \<or> pat_pattern p = src_api_key_m"
    using default_api_key_pattern[of p] p(1) ps(2) j(1) bad by auto
  then have "r = re_api_key \<or> r = re_api_key_m"
    using p(2) assms(1,2) by auto
  then have "search True r apiKeyLine 0 = None"
    using api_key_line_no_match by auto
  then show False
    using j(4) ji assms(7) by (simp add: newRegExp_def lines_def)
qed

text \<open>The file with the API key line as its second line: only the password is reported.\<close>

theorem C4_api_key_line_witness:
  "split keyFile lf ! 1 = apiKeyLine
   \<and> \<not> (\<exists>x \<in> set (scanFile (oneFileHost ''src/config.js'' keyFile)
                      (contextWithPatterns getDefaultPatterns) ''src/config.js'').
          iss_rule x = ''hardcoded-api-key'' \<and> iss_line x = Some (1 + 1))
   \<and> map iss_rule (scanFile (oneFileHost ''src/config.js'' keyFile)
                      (contextWithPatterns getDefaultPatterns) ''src/config.js'')
       = [''hardcoded-password'']"
proof -
  have h1: "compileRegExp (oneFileHost ''src/config.js'' keyFile) src_api_key = Some re_api_key"
    by code_simp
  have h2: "compileRegExp (oneFileHost ''src/config.js'' keyFile) src_api_key_m = Some re_api_key_m"
    by code_simp
  have h3: "readFileSync (oneFileHost ''src/config.js'' keyFile) ''src/config.js'' = Some keyFile"
    by (simp add: oneFileHost_def)
  have h4: "security (contextWithPatterns getDefaultPatterns)
      = Some \<lparr>rules = None, patterns = Some getDefaultPatterns\<rparr>"
    by (simp add: contextWithPatterns_def)
  have h5: "patterns \<lparr>rules = None, patterns = Some getDefaultPatterns\<rparr> = Some getDefaultPatterns
      \<or> patterns \<lparr>rules = None, patterns = Some getDefaultPatterns\<rparr>
          = Some getDefaultSecurityPatterns"
    by simp
  have h6: "1 < length (split keyFile lf)"
    by code_simp
  have h7: "split keyFile lf ! 1 = apiKeyLine"
    by code_simp
  have v: "map iss_rule (scanFile (oneFileHost ''src/config.js'' keyFile)
                      (contextWithPatterns getDefaultPatterns) ''src/config.js'')
       = [''hardcoded-password'']"
    by code_simp
  from C4_api_key_line[OF h1 h2 h3 h4 h5 h6 h7]
  have "\<not> (\<exists>x \<in> set (scanFile (oneFileHost ''src/config.js'' keyFile)
                      (contextWithPatterns getDefaultPatterns) ''src/config.js'').
          iss_rule x = ''hardcoded-api-key'' \<and> iss_line x = Some (1 + 1))"
    by blast
  with h7 v show ?thesis by blast
qed

text \<open>
  The file that consists of that line alone: with either set of default patterns, the scan
  produces no issue at all.
\<close>

lemma live_key_file_unreported:
  "scanFile (oneFileHost ''src/config.js'' apiKeyLine)
       (contextWithPatterns getDefaultPatterns) ''src/config.js'' = []
   \<and> scanFile (oneFileHost ''src/config.js'' apiKeyLine)
       (contextWithPatterns getDefaultSecurityPatterns) ''src/config.js'' = []"
  by code_simp


end
